theory Spec2Isabelle
  imports Main "HOL-Library.AList"
begin

section \<open>Values, errors and the key-value backend\<close>

text \<open>
  The structured documents that \<open>workflow_storage.py\<close> reads and writes are JSON values.
  A Python dict is kept as an association list: a lookup takes the first binding of a key,
  an item assignment replaces the binding in place or appends a new one.  \<open>JNull\<close> is
  Python's \<open>None\<close>.  Floating-point numbers do not occur in the documents this module
  writes and are left out.
\<close>

datatype json =
    JNull
  | JBool bool
  | JInt int
  | JStr string
  | JList "json list"
  | JDict "(string \<times> json) list"

text \<open>Truth value of a Python object, as used by \<open>or\<close>, \<open>and\<close> and \<open>if\<close>.\<close>

fun truthy :: "json \<Rightarrow> bool" where
  "truthy JNull = False"
| "truthy (JBool b) = b"
| "truthy (JInt i) = (i \<noteq> 0)"
| "truthy (JStr s) = (s \<noteq> [])"
| "truthy (JList xs) = (xs \<noteq> [])"
| "truthy (JDict kvs) = (kvs \<noteq> [])"

text \<open>
  Every exception the module can raise or meet.  \<open>BackendError\<close> stands for any exception
  of the storage backend other than \<open>KeyNotFoundError\<close>.
\<close>

datatype error =
    KeyNotFoundError
  | DataLoadError
  | DataSaveError
  | BackendError
  | KeyError json
  | TypeError
  | AttributeError
  | AssertionError
  | ValueError string

text \<open>Sequencing of a computation that may raise.\<close>

definition sbind :: "error + 'a \<Rightarrow> ('a \<Rightarrow> error + 'b) \<Rightarrow> error + 'b" where
  "sbind m f = (case m of Inl e \<Rightarrow> Inl e | Inr x \<Rightarrow> f x)"

text \<open>\<open>metadata[k]\<close>: a missing key raises KeyError, a value that is no dict raises TypeError.\<close>

fun py_getitem :: "json \<Rightarrow> string \<Rightarrow> error + json" where
  "py_getitem (JDict kvs) k =
     (case map_of kvs k of None \<Rightarrow> Inl (KeyError (JStr k)) | Some v \<Rightarrow> Inr v)"
| "py_getitem JNull k = Inl TypeError"
| "py_getitem (JBool b) k = Inl TypeError"
| "py_getitem (JInt i) k = Inl TypeError"
| "py_getitem (JStr s) k = Inl TypeError"
| "py_getitem (JList xs) k = Inl TypeError"

text \<open>\<open>metadata.get(k, d)\<close>: only a dict has the method.\<close>

fun py_get :: "json \<Rightarrow> string \<Rightarrow> json \<Rightarrow> error + json" where
  "py_get (JDict kvs) k d = Inr (case map_of kvs k of None \<Rightarrow> d | Some v \<Rightarrow> v)"
| "py_get JNull k d = Inl AttributeError"
| "py_get (JBool b) k d = Inl AttributeError"
| "py_get (JInt i) k d = Inl AttributeError"
| "py_get (JStr s) k d = Inl AttributeError"
| "py_get (JList xs) k d = Inl AttributeError"

text \<open>\<open>metadata[k] = v\<close>.\<close>

fun py_setitem :: "json \<Rightarrow> string \<Rightarrow> json \<Rightarrow> error + json" where
  "py_setitem (JDict kvs) k v = Inr (JDict (AList.update k v kvs))"
| "py_setitem JNull k v = Inl TypeError"
| "py_setitem (JBool b) k v = Inl TypeError"
| "py_setitem (JInt i) k v = Inl TypeError"
| "py_setitem (JStr s) k v = Inl TypeError"
| "py_setitem (JList xs) k v = Inl TypeError"

text \<open>\<open>val + 1\<close> on a loaded document: \<open>bool\<close> is a subclass of \<open>int\<close> in Python.\<close>

fun py_add1 :: "json \<Rightarrow> error + int" where
  "py_add1 (JInt i) = Inr (i + 1)"
| "py_add1 (JBool b) = Inr ((if b then 1 else 0) + 1)"
| "py_add1 JNull = Inl TypeError"
| "py_add1 (JStr s) = Inl TypeError"
| "py_add1 (JList xs) = Inl TypeError"
| "py_add1 (JDict kvs) = Inl TypeError"

subsection \<open>The backend\<close>

text \<open>
  Modelled from the spec: the module \<open>ray.experimental.workflow.storage\<close> (\<open>make_key\<close>,
  \<open>put\<close>, \<open>get\<close>, \<open>scan_prefix\<close>) is not part of the sources.  The spec describes it as a
  consistent key-value backend with atomic put and get of opaque payloads, a get that fails
  distinctly for an absent key, a prefix scan returning the immediate child names, and
  document-encoded payloads kept apart from binary-encoded ones.

  A key is the list of its path segments, so distinct paths are distinct keys.  A payload is
  a document (\<open>is_json=True\<close>) or an opaque pickled object.  The three fault lists name the
  keys on which the backend raises: they make every backend failure of the spec an input of
  the model.  \<open>put_log\<close> is a ghost field: the keys of the puts the backend has served, in
  order; no operation reads it.
\<close>

type_synonym key = "string list"

type_synonym blob = string

datatype payload = Doc json | Pickled blob

record storage =
  cells :: "(key \<times> payload) list"
  get_faults :: "key list"
  put_faults :: "key list"
  scan_faults :: "key list"
  put_log :: "key list"

definition make_key :: "string list \<Rightarrow> key" where
  "make_key paths = paths"

definition is_doc :: "payload \<Rightarrow> bool" where
  "is_doc p = (case p of Doc j \<Rightarrow> True | Pickled b \<Rightarrow> False)"

definition storage_get :: "storage \<Rightarrow> key \<Rightarrow> bool \<Rightarrow> error + payload" where
  "storage_get s k is_json =
     (if k \<in> set (get_faults s) then Inl BackendError
      else case map_of (cells s) k of
             None \<Rightarrow> Inl KeyNotFoundError
           | Some p \<Rightarrow> if is_doc p = is_json then Inr p else Inl BackendError)"

definition storage_put :: "storage \<Rightarrow> key \<Rightarrow> payload \<Rightarrow> error + storage" where
  "storage_put s k p =
     (if k \<in> set (put_faults s) then Inl BackendError
      else Inr (s\<lparr>cells := AList.update k p (cells s), put_log := put_log s @ [k]\<rparr>))"

text \<open>A prefix that ends in the empty segment names a directory.\<close>

definition dir_of :: "key \<Rightarrow> key" where
  "dir_of prefix = (if prefix \<noteq> [] \<and> last prefix = [] then butlast prefix else prefix)"

definition child_names :: "key list \<Rightarrow> key \<Rightarrow> string list" where
  "child_names ks d =
     remdups (map (\<lambda>k. k ! length d)
       (filter (\<lambda>k. length d < length k \<and> take (length d) k = d) ks))"

definition scan_prefix :: "storage \<Rightarrow> key \<Rightarrow> error + string list" where
  "scan_prefix s prefix =
     (if prefix \<in> set (scan_faults s) then Inl BackendError
      else Inr (child_names (map fst (cells s)) (dir_of prefix)))"

section \<open>The workflow storage\<close>

subsection \<open>Constants used for keys\<close>

definition OBJECTS_DIR :: string where "OBJECTS_DIR = ''objects''"
definition STEPS_DIR :: string where "STEPS_DIR = ''steps''"
definition STEP_INPUTS_METADATA :: string where "STEP_INPUTS_METADATA = ''inputs.json''"
definition STEP_OUTPUTS_METADATA :: string where "STEP_OUTPUTS_METADATA = ''outputs.json''"
definition STEP_ARGS :: string where "STEP_ARGS = ''args.pkl''"
definition STEP_OUTPUT :: string where "STEP_OUTPUT = ''output.pkl''"
definition STEP_FUNC_BODY :: string where "STEP_FUNC_BODY = ''func_body.pkl''"
definition CLASS_BODY :: string where "CLASS_BODY = ''class_body.pkl''"
definition WORKFLOW_META :: string where "WORKFLOW_META = ''workflow_meta.json''"
definition WORKFLOW_PROGRESS :: string where "WORKFLOW_PROGRESS = ''progress.json''"
definition DUPLICATE_NAME_COUNTER :: string where
  "DUPLICATE_NAME_COUNTER = ''duplicate_name_counter''"

subsection \<open>Key helpers\<close>

text \<open>The first argument of every function below is \<open>self._workflow_id\<close>.\<close>

definition key_workflow_progress :: "string \<Rightarrow> string list" where
  "key_workflow_progress wid = [wid, STEPS_DIR, WORKFLOW_PROGRESS]"

definition key_step_input_metadata :: "string \<Rightarrow> string \<Rightarrow> string list" where
  "key_step_input_metadata wid step_id = [wid, STEPS_DIR, step_id, STEP_INPUTS_METADATA]"

definition key_step_output :: "string \<Rightarrow> string \<Rightarrow> string list" where
  "key_step_output wid step_id = [wid, STEPS_DIR, step_id, STEP_OUTPUT]"

definition key_step_output_metadata :: "string \<Rightarrow> string \<Rightarrow> string list" where
  "key_step_output_metadata wid step_id = [wid, STEPS_DIR, step_id, STEP_OUTPUTS_METADATA]"

definition key_step_function_body :: "string \<Rightarrow> string \<Rightarrow> string list" where
  "key_step_function_body wid step_id = [wid, STEPS_DIR, step_id, STEP_FUNC_BODY]"

definition key_step_args :: "string \<Rightarrow> string \<Rightarrow> string list" where
  "key_step_args wid step_id = [wid, STEPS_DIR, step_id, STEP_ARGS]"

definition key_obj_id :: "string \<Rightarrow> string \<Rightarrow> string list" where
  "key_obj_id wid object_id = [wid, OBJECTS_DIR, object_id]"

definition key_step_prefix :: "string \<Rightarrow> string \<Rightarrow> string list" where
  "key_step_prefix wid step_id = [wid, STEPS_DIR, step_id, []]"

definition key_class_body :: "string \<Rightarrow> string list" where
  "key_class_body wid = [wid, CLASS_BODY]"

definition key_workflow_metadata :: "string \<Rightarrow> string list" where
  "key_workflow_metadata wid = [wid, WORKFLOW_META]"

definition key_num_steps_with_name :: "string \<Rightarrow> string \<Rightarrow> string list" where
  "key_num_steps_with_name wid name = [wid, DUPLICATE_NAME_COUNTER, name]"

subsection \<open>Wrapped backend access\<close>

text \<open>
  \<open>WorkflowStorage._put\<close>, \<open>_get\<close> and \<open>_scan\<close>.  The flag \<open>is_json\<close> selects the type of
  the payload, so the typed model has one function for each value of the flag:
  \<open>ws_put_json\<close> and \<open>ws_get_json\<close> are the calls with \<open>is_json=True\<close>, \<open>ws_put\<close> and
  \<open>ws_get\<close> those with the default \<open>False\<close>.  A failed put leaves the store as it was.
\<close>

definition ws_put_payload :: "storage \<Rightarrow> string list \<Rightarrow> payload \<Rightarrow> error + storage" where
  "ws_put_payload s paths p =
     (case storage_put s (make_key paths) p of
        Inl e \<Rightarrow> Inl DataSaveError
      | Inr s' \<Rightarrow> Inr s')"

definition ws_put_json :: "storage \<Rightarrow> string list \<Rightarrow> json \<Rightarrow> error + storage" where
  "ws_put_json s paths data = ws_put_payload s paths (Doc data)"

definition ws_put :: "storage \<Rightarrow> string list \<Rightarrow> blob \<Rightarrow> error + storage" where
  "ws_put s paths data = ws_put_payload s paths (Pickled data)"

definition ws_get_payload :: "storage \<Rightarrow> string list \<Rightarrow> bool \<Rightarrow> error + payload" where
  "ws_get_payload s paths is_json =
     (case storage_get s (make_key paths) is_json of
        Inl e \<Rightarrow> if e = KeyNotFoundError then Inl KeyNotFoundError else Inl DataLoadError
      | Inr p \<Rightarrow> Inr p)"

definition ws_get_json :: "storage \<Rightarrow> string list \<Rightarrow> error + json" where
  "ws_get_json s paths =
     (case ws_get_payload s paths True of
        Inl e \<Rightarrow> Inl e
      | Inr (Doc j) \<Rightarrow> Inr j
      | Inr (Pickled b) \<Rightarrow> Inl DataLoadError)"

definition ws_get :: "storage \<Rightarrow> string list \<Rightarrow> error + blob" where
  "ws_get s paths =
     (case ws_get_payload s paths False of
        Inl e \<Rightarrow> Inl e
      | Inr (Pickled b) \<Rightarrow> Inr b
      | Inr (Doc j) \<Rightarrow> Inl DataLoadError)"

definition ws_scan :: "storage \<Rightarrow> string list \<Rightarrow> error + string list" where
  "ws_scan s paths =
     (case scan_prefix s (make_key paths) of
        Inl e \<Rightarrow> Inl DataLoadError
      | Inr items \<Rightarrow> Inr items)"

text \<open>
  \<open>asyncio.gather\<close> over tasks that change the store.  The backend's coroutines are taken
  to complete without yielding to the event loop, so the tasks run one after the other in
  the order they were created; a task that raises does not stop the later ones, and the
  first exception raised is the one the caller sees.  A task returns the exception it
  raised, if any, and the store it leaves.
\<close>

type_synonym task = "storage \<Rightarrow> error option \<times> storage"

definition attempt :: "(storage \<Rightarrow> error + storage) \<Rightarrow> task" where
  "attempt f s = (case f s of Inl e \<Rightarrow> (Some e, s) | Inr s' \<Rightarrow> (None, s'))"

fun gather :: "task list \<Rightarrow> task" where
  "gather [] s = (None, s)"
| "gather (t # ts) s =
     (case t s of
        (None, s') \<Rightarrow> gather ts s'
      | (Some e, s') \<Rightarrow> (Some e, snd (gather ts s')))"

text \<open>
  \<open>asyncio.gather\<close> over loads, and a list comprehension over expressions that may
  raise: the results in order, or the first exception.
\<close>

fun gather_results :: "(error + 'a) list \<Rightarrow> error + 'a list" where
  "gather_results [] = Inr []"
| "gather_results (r # rs) =
     (case r of
        Inl e \<Rightarrow> Inl e
      | Inr x \<Rightarrow> (case gather_results rs of Inl e \<Rightarrow> Inl e | Inr xs \<Rightarrow> Inr (x # xs)))"

subsection \<open>Output resolver\<close>

definition update_dynamic_output :: "storage \<Rightarrow> string \<Rightarrow> string \<Rightarrow> string \<Rightarrow> error + storage" where
  "update_dynamic_output s wid outer_most_step_id dynamic_output_step_id =
     sbind (ws_get_json s (key_step_output_metadata wid outer_most_step_id)) (\<lambda>metadata.
     sbind (py_getitem metadata ''output_step_id'') (\<lambda>out.
       if JStr dynamic_output_step_id = out then Inr s
       else
         sbind (py_get metadata ''dynamic_output_step_id'' JNull) (\<lambda>dyn.
           if JStr dynamic_output_step_id = dyn then Inr s
           else
             sbind (py_setitem metadata ''dynamic_output_step_id'' (JStr dynamic_output_step_id))
               (\<lambda>metadata'.
                  ws_put_json s (key_step_output_metadata wid outer_most_step_id) metadata'))))"

definition locate_output_step_id :: "storage \<Rightarrow> string \<Rightarrow> string \<Rightarrow> error + json" where
  "locate_output_step_id s wid step_id =
     sbind (ws_get_json s (key_step_output_metadata wid step_id)) (\<lambda>metadata.
     sbind (py_get metadata ''dynamic_output_step_id'' JNull) (\<lambda>dyn.
       if truthy dyn then Inr dyn else py_getitem metadata ''output_step_id''))"

definition get_entrypoint_step_id :: "storage \<Rightarrow> string \<Rightarrow> error + json" where
  "get_entrypoint_step_id s wid =
     (case locate_output_step_id s wid [] of
        Inl e \<Rightarrow> Inl (ValueError (''Fail to get entrypoint step ID from workflow[id='' @ wid @ '']''))
      | Inr v \<Rightarrow> Inr v)"

subsection \<open>Step artifact manager\<close>

text \<open>
  The object a step returns: a pending nested workflow (of which only \<open>step_id\<close> is read),
  an object-store handle, or a plain value.  \<open>ray.get\<close> is not part of the sources; a handle
  carries the value it resolves to.
\<close>

datatype step_return = NestedWorkflow string | ObjectRef blob | PlainValue blob

definition save_step_output ::
  "storage \<Rightarrow> string \<Rightarrow> string \<Rightarrow> step_return \<Rightarrow> string option \<Rightarrow> error option \<times> storage" where
  "save_step_output s wid step_id ret outer_most_step_id =
     (case
        (case ret of
           NestedWorkflow ret_step_id \<Rightarrow>
             if step_id = ret_step_id then Inl AssertionError
             else Inr (attempt (\<lambda>s. ws_put_json s (key_step_output_metadata wid step_id)
                                     (JDict [(''output_step_id'', JStr ret_step_id)])),
                       ret_step_id)
         | ObjectRef v \<Rightarrow> Inr (attempt (\<lambda>s. ws_put s (key_step_output wid step_id) v), step_id)
         | PlainValue v \<Rightarrow> Inr (attempt (\<lambda>s. ws_put s (key_step_output wid step_id) v), step_id))
      of
        Inl e \<Rightarrow> (Some e, s)
      | Inr (put_task, dynamic_output_id) \<Rightarrow>
          gather
            (put_task #
              (case outer_most_step_id of
                 None \<Rightarrow> []
               | Some outer \<Rightarrow>
                   if outer \<noteq> []
                   then [attempt (\<lambda>s. update_dynamic_output s wid outer dynamic_output_id)]
                   else []))
            s)"

definition gen_step_id :: "storage \<Rightarrow> string \<Rightarrow> string \<Rightarrow> error + int \<times> storage" where
  "gen_step_id s wid step_name =
     (let key = key_num_steps_with_name wid step_name in
      case ws_get_json s key of
        Inr val \<Rightarrow>
          sbind (py_add1 val) (\<lambda>n.
          sbind (ws_put_json s key (JInt n)) (\<lambda>s'. Inr (n, s')))
      | Inl e \<Rightarrow>
          if e = KeyNotFoundError
          then sbind (ws_put_json s key (JInt 0)) (\<lambda>s'. Inr (0, s'))
          else Inl e)"

text \<open>A caller that draws \<open>k\<close> ids for one name, one call after the other.\<close>

fun gen_step_ids :: "nat \<Rightarrow> storage \<Rightarrow> string \<Rightarrow> string \<Rightarrow> error + int list \<times> storage" where
  "gen_step_ids 0 s wid step_name = Inr ([], s)"
| "gen_step_ids (Suc k) s wid step_name =
     sbind (gen_step_id s wid step_name) (\<lambda>(n, s').
     sbind (gen_step_ids k s' wid step_name) (\<lambda>(ns, s''). Inr (n # ns, s'')))"

text \<open>
  The remaining operations that write.  An object reference is given by its hex id and the
  value it resolves to; a workflow's metadata by the value of its status; the inputs of a
  step by the three objects \<open>_write_step_inputs\<close> stores (\<open>WorkflowData.to_metadata\<close> and
  the serialization context are not part of the sources); a workflow DAG by its
  \<open>executed\<close> flag and the steps \<open>iter_workflows_in_dag\<close> yields.
\<close>

definition save_object_ref :: "storage \<Rightarrow> string \<Rightarrow> string \<Rightarrow> blob \<Rightarrow> error + storage" where
  "save_object_ref s wid hex data = ws_put s (key_obj_id wid hex) data"

definition write_step_inputs :: "string \<Rightarrow> string \<Rightarrow> json \<times> blob \<times> blob \<Rightarrow> task" where
  "write_step_inputs wid step_id inputs =
     (case inputs of (metadata, func_body, args_obj) \<Rightarrow>
        gather
          [attempt (\<lambda>s. ws_put_json s (key_step_input_metadata wid step_id) metadata),
           attempt (\<lambda>s. ws_put s (key_step_function_body wid step_id) func_body),
           attempt (\<lambda>s. ws_put s (key_step_args wid step_id) args_obj)])"

definition save_subworkflow ::
  "storage \<Rightarrow> string \<Rightarrow> bool \<Rightarrow> (string \<times> json \<times> blob \<times> blob) list \<Rightarrow> error option \<times> storage" where
  "save_subworkflow s wid executed dag =
     (if executed then (Some AssertionError, s)
      else gather (map (\<lambda>(step_id, data). write_step_inputs wid step_id data) dag) s)"

definition save_actor_class_body :: "storage \<Rightarrow> string \<Rightarrow> blob \<Rightarrow> error + storage" where
  "save_actor_class_body s wid cls = ws_put s (key_class_body wid) cls"

definition save_workflow_meta :: "storage \<Rightarrow> string \<Rightarrow> json \<Rightarrow> error + storage" where
  "save_workflow_meta s wid status_value =
     ws_put_json s (key_workflow_metadata wid) (JDict [(''status'', status_value)])"

definition advance_progress :: "storage \<Rightarrow> string \<Rightarrow> string \<Rightarrow> error + storage" where
  "advance_progress s wid finished_step_id =
     ws_put_json s (key_workflow_progress wid) (JDict [(''step_id'', JStr finished_step_id)])"

subsection \<open>Step inspector\<close>

text \<open>
  Fields that hold whatever the stored document holds are of type \<open>json\<close>, with \<open>JNull\<close>
  for \<open>None\<close>.  The enumeration \<open>StepType\<close> is not part of the sources: it is a parameter,
  the map from member names to members.
\<close>

record 't StepInspectResult =
  output_object_valid :: bool
  output_step_id :: json
  args_valid :: bool
  func_body_valid :: bool
  object_refs :: json
  workflows :: json
  workflow_refs :: json
  max_retries :: json
  catch_exceptions :: json
  ray_options :: json
  step_type :: "'t option"

text \<open>The dataclass's defaults.\<close>

definition StepInspectResult_default :: "'t StepInspectResult" where
  "StepInspectResult_default =
     \<lparr>output_object_valid = False, output_step_id = JNull, args_valid = False,
      func_body_valid = False, object_refs = JNull, workflows = JNull, workflow_refs = JNull,
      max_retries = JInt 1, catch_exceptions = JBool False, ray_options = JNull,
      step_type = None\<rparr>"

text \<open>The truth value of what \<open>is_recoverable\<close> returns.\<close>

definition is_recoverable :: "'t StepInspectResult \<Rightarrow> bool" where
  "is_recoverable r =
     (output_object_valid r \<or> truthy (output_step_id r)
      \<or> (args_valid r \<and> object_refs r \<noteq> JNull \<and> workflows r \<noteq> JNull \<and> func_body_valid r))"

record StepStatus =
  output_object_exists :: bool
  output_metadata_exists :: bool
  input_metadata_exists :: bool
  args_exists :: bool
  func_body_exists :: bool

text \<open>\<open>StepType[name]\<close>: lookup of a member by name.\<close>

fun enum_getitem :: "(string \<rightharpoonup> 't) \<Rightarrow> json \<Rightarrow> error + 't" where
  "enum_getitem members (JStr n) =
     (case members n of None \<Rightarrow> Inl (KeyError (JStr n)) | Some m \<Rightarrow> Inr m)"
| "enum_getitem members JNull = Inl (KeyError JNull)"
| "enum_getitem members (JBool b) = Inl (KeyError (JBool b))"
| "enum_getitem members (JInt i) = Inl (KeyError (JInt i))"
| "enum_getitem members (JList xs) = Inl TypeError"
| "enum_getitem members (JDict kvs) = Inl TypeError"

text \<open>The body of the \<open>try\<close> block of \<open>_inspect_step\<close>.\<close>

definition inspect_inputs ::
  "(string \<rightharpoonup> 't) \<Rightarrow> storage \<Rightarrow> string \<Rightarrow> string \<Rightarrow> StepStatus \<Rightarrow> error + 't StepInspectResult" where
  "inspect_inputs StepType s wid step_id field_list =
     sbind (ws_get_json s (key_step_input_metadata wid step_id)) (\<lambda>metadata.
     sbind (py_getitem metadata ''object_refs'') (\<lambda>orefs.
     sbind (py_getitem metadata ''workflows'') (\<lambda>wfs.
     sbind (py_getitem metadata ''workflow_refs'') (\<lambda>wrefs.
     sbind (py_get metadata ''max_retries'' JNull) (\<lambda>retries.
     sbind (py_get metadata ''catch_exceptions'' JNull) (\<lambda>catch.
     sbind (py_get metadata ''ray_options'' (JDict [])) (\<lambda>options.
     sbind (py_get metadata ''step_type'' JNull) (\<lambda>tag.
     sbind (enum_getitem StepType tag) (\<lambda>ty.
       Inr (StepInspectResult_default
              \<lparr>args_valid := args_exists field_list,
               func_body_valid := func_body_exists field_list,
               object_refs := orefs, workflows := wfs, workflow_refs := wrefs,
               max_retries := retries, catch_exceptions := catch, ray_options := options,
               step_type := Some ty\<rparr>))))))))))"

definition inspect_step ::
  "(string \<rightharpoonup> 't) \<Rightarrow> storage \<Rightarrow> string \<Rightarrow> string \<Rightarrow> error + 't StepInspectResult" where
  "inspect_step StepType s wid step_id =
     sbind (ws_scan s (key_step_prefix wid step_id)) (\<lambda>items.
       let keys = set items;
           field_list =
             \<lparr>output_object_exists = (STEP_OUTPUT \<in> keys),
              output_metadata_exists = (STEP_OUTPUTS_METADATA \<in> keys),
              input_metadata_exists = (STEP_INPUTS_METADATA \<in> keys),
              args_exists = (STEP_ARGS \<in> keys),
              func_body_exists = (STEP_FUNC_BODY \<in> keys)\<rparr>
       in
         if output_object_exists field_list
         then Inr (StepInspectResult_default\<lparr>output_object_valid := True\<rparr>)
         else if output_metadata_exists field_list
         then sbind (locate_output_step_id s wid step_id) (\<lambda>output_step_id'.
                Inr (StepInspectResult_default\<lparr>output_step_id := output_step_id'\<rparr>))
         else
           (case inspect_inputs StepType s wid step_id field_list of
              Inr r \<Rightarrow> Inr r
            | Inl e \<Rightarrow>
                Inr (StepInspectResult_default
                       \<lparr>args_valid := args_exists field_list,
                        func_body_valid := func_body_exists field_list\<rparr>)))"

subsection \<open>Workflow registry\<close>

text \<open>
  The enumeration \<open>WorkflowStatus\<close> is not part of the sources: it is a parameter, the
  partial map from values to members.  \<open>WorkflowStatus(v)\<close> raises ValueError for a value
  of no member (the message is shortened).
\<close>

definition enum_call :: "(json \<Rightarrow> 'st option) \<Rightarrow> json \<Rightarrow> error + 'st" where
  "enum_call by_value v =
     (case by_value v of
        None \<Rightarrow> Inl (ValueError ''not a valid WorkflowStatus'')
      | Some m \<Rightarrow> Inr m)"

definition list_workflow ::
  "(json \<Rightarrow> 'st option) \<Rightarrow> storage \<Rightarrow> error + (string \<times> 'st option) list" where
  "list_workflow WorkflowStatus s =
     sbind (scan_prefix s (make_key [[]])) (\<lambda>workflow_ids.
     sbind (gather_results
              (map (\<lambda>workflow_id. ws_get_json s [workflow_id, WORKFLOW_META]) workflow_ids))
       (\<lambda>metadata.
          gather_results
            (map (\<lambda>(wid, meta).
                    if truthy meta
                    then sbind (py_getitem meta ''status'') (\<lambda>v.
                         sbind (enum_call WorkflowStatus v) (\<lambda>st. Inr (wid, Some st)))
                    else Inr (wid, None))
               (zip workflow_ids metadata))))"

text \<open>\<open>load_workflow_meta\<close>, the sibling of the listing that reads one workflow's record.\<close>

definition load_workflow_meta ::
  "(json \<Rightarrow> 'st option) \<Rightarrow> storage \<Rightarrow> string \<Rightarrow> error + 'st option" where
  "load_workflow_meta WorkflowStatus s wid =
     (case ws_get_json s (key_workflow_metadata wid) of
        Inr metadata \<Rightarrow>
          sbind (py_getitem metadata ''status'') (\<lambda>v.
          sbind (enum_call WorkflowStatus v) (\<lambda>st. Inr (Some st)))
      | Inl e \<Rightarrow> if e = KeyNotFoundError then Inr None else Inl e)"

subsection \<open>Observations used in the statements\<close>

text \<open>The document stored under a step's output-metadata key, if one is stored.\<close>

definition stored_output_metadata :: "storage \<Rightarrow> string \<Rightarrow> string \<Rightarrow> json option" where
  "stored_output_metadata s wid step_id =
     (case map_of (cells s) (make_key (key_step_output_metadata wid step_id)) of
        Some (Doc m) \<Rightarrow> Some m
      | Some (Pickled b) \<Rightarrow> None
      | None \<Rightarrow> None)"

text \<open>A field of a stored dict, if the document is a dict that has the field.\<close>

definition field :: "string \<Rightarrow> json option \<Rightarrow> json option" where
  "field k doc = (case doc of Some (JDict kvs) \<Rightarrow> map_of kvs k | _ \<Rightarrow> None)"

text \<open>A store with the given cells on a backend that never fails.\<close>

definition store_of :: "(key \<times> payload) list \<Rightarrow> storage" where
  "store_of cs = \<lparr>cells = cs, get_faults = [], put_faults = [], scan_faults = [], put_log = []\<rparr>"

section \<open>Properties\<close>

subsection \<open>Backend access\<close>

lemma ws_get_json_Inr:
  "ws_get_json s paths = Inr m \<longleftrightarrow>
     paths \<notin> set (get_faults s) \<and> map_of (cells s) paths = Some (Doc m)"
  by (auto simp: ws_get_json_def ws_get_payload_def storage_get_def make_key_def is_doc_def
      split: option.splits payload.splits sum.splits if_splits)

lemma ws_get_json_KeyNotFound:
  "ws_get_json s paths = Inl KeyNotFoundError \<longleftrightarrow>
     paths \<notin> set (get_faults s) \<and> map_of (cells s) paths = None"
  by (auto simp: ws_get_json_def ws_get_payload_def storage_get_def make_key_def is_doc_def
      split: option.splits payload.splits sum.splits if_splits)

lemma ws_put_payload_Inr:
  "ws_put_payload s paths p = Inr s' \<longleftrightarrow>
     paths \<notin> set (put_faults s) \<and>
     s' = s\<lparr>cells := AList.update paths p (cells s), put_log := put_log s @ [paths]\<rparr>"
  by (auto simp: ws_put_payload_def storage_put_def make_key_def)

subsection \<open>The shortcut update\<close>

text \<open>How a successful call of \<open>update_dynamic_output\<close> went.\<close>

lemma update_dynamic_output_Inr:
  assumes "update_dynamic_output s wid outer c = Inr s'"
  shows "\<exists>kvs out.
    ws_get_json s (key_step_output_metadata wid outer) = Inr (JDict kvs) \<and>
    map_of kvs ''output_step_id'' = Some out \<and>
    ((out = JStr c \<or> map_of kvs ''dynamic_output_step_id'' = Some (JStr c)) \<and> s' = s
     \<or> out \<noteq> JStr c \<and> map_of kvs ''dynamic_output_step_id'' \<noteq> Some (JStr c) \<and>
       key_step_output_metadata wid outer \<notin> set (put_faults s) \<and>
       s' = s\<lparr>cells := AList.update (key_step_output_metadata wid outer)
                 (Doc (JDict (AList.update ''dynamic_output_step_id'' (JStr c) kvs))) (cells s),
              put_log := put_log s @ [key_step_output_metadata wid outer]\<rparr>)"
proof -
  from assms obtain m where m: "ws_get_json s (key_step_output_metadata wid outer) = Inr m"
    by (auto simp: update_dynamic_output_def sbind_def split: sum.splits)
  from assms m obtain out where out: "py_getitem m ''output_step_id'' = Inr out"
    by (auto simp: update_dynamic_output_def sbind_def split: sum.splits)
  then obtain kvs where kvs: "m = JDict kvs" and look: "map_of kvs ''output_step_id'' = Some out"
    by (cases m) (auto split: option.splits)
  have "(out = JStr c \<or> map_of kvs ''dynamic_output_step_id'' = Some (JStr c)) \<and> s' = s
     \<or> out \<noteq> JStr c \<and> map_of kvs ''dynamic_output_step_id'' \<noteq> Some (JStr c) \<and>
       key_step_output_metadata wid outer \<notin> set (put_faults s) \<and>
       s' = s\<lparr>cells := AList.update (key_step_output_metadata wid outer)
                 (Doc (JDict (AList.update ''dynamic_output_step_id'' (JStr c) kvs))) (cells s),
              put_log := put_log s @ [key_step_output_metadata wid outer]\<rparr>"
    using assms m kvs look
    by (auto simp: update_dynamic_output_def sbind_def ws_put_json_def ws_put_payload_Inr
          split: option.splits if_splits)
  with m kvs look show ?thesis by blast
qed

lemma update_dynamic_output_noop:
  assumes "ws_get_json s (key_step_output_metadata wid outer) = Inr (JDict kvs)"
    and "map_of kvs ''output_step_id'' = Some out"
    and "out = JStr c \<or> map_of kvs ''dynamic_output_step_id'' = Some (JStr c)"
  shows "update_dynamic_output s wid outer c = Inr s"
  using assms by (auto simp: update_dynamic_output_def sbind_def)

lemma stored_output_metadata_get:
  "ws_get_json s (key_step_output_metadata wid sid) = Inr m \<Longrightarrow>
   stored_output_metadata s wid sid = Some m"
  by (simp add: ws_get_json_Inr stored_output_metadata_def make_key_def)

text \<open>
  Claim C6.  \<open>update_dynamic_output\<close> is idempotent.  A call that succeeded, repeated with
  the same candidate on the store it left, succeeds and leaves that store as it is, the log
  of puts included: the same candidate changes the stored metadata at most once.  And for
  every store whose outer-most step has output metadata with an \<open>output_step_id\<close>, a
  candidate equal to that \<open>output_step_id\<close> or to the current \<open>dynamic_output_step_id\<close>
  leaves the whole store unchanged, so no put is issued.
\<close>

theorem update_dynamic_output_idempotent:
  "(update_dynamic_output s wid outer c = Inr s' \<longrightarrow>
      update_dynamic_output s' wid outer c = Inr s')
   \<and> (ws_get_json s (key_step_output_metadata wid outer) = Inr (JDict kvs)
        \<and> map_of kvs ''output_step_id'' = Some out
        \<and> (out = JStr c \<or> map_of kvs ''dynamic_output_step_id'' = Some (JStr c))
      \<longrightarrow> update_dynamic_output s wid outer c = Inr s)"
proof (intro conjI impI)
  assume run: "update_dynamic_output s wid outer c = Inr s'"
  let ?k = "key_step_output_metadata wid outer"
  from update_dynamic_output_Inr [OF run] obtain kvs' out' where
    get: "ws_get_json s ?k = Inr (JDict kvs')"
    and out: "map_of kvs' ''output_step_id'' = Some out'"
    and how: "(out' = JStr c \<or> map_of kvs' ''dynamic_output_step_id'' = Some (JStr c)) \<and> s' = s
     \<or> out' \<noteq> JStr c \<and> map_of kvs' ''dynamic_output_step_id'' \<noteq> Some (JStr c) \<and>
       ?k \<notin> set (put_faults s) \<and>
       s' = s\<lparr>cells := AList.update ?k
                 (Doc (JDict (AList.update ''dynamic_output_step_id'' (JStr c) kvs'))) (cells s),
              put_log := put_log s @ [?k]\<rparr>"
    by blast
  show "update_dynamic_output s' wid outer c = Inr s'"
  proof (cases "out' = JStr c \<or> map_of kvs' ''dynamic_output_step_id'' = Some (JStr c)")
    case True
    with how run show ?thesis by auto
  next
    case False
    with how have s': "s' = s\<lparr>cells := AList.update ?k
                 (Doc (JDict (AList.update ''dynamic_output_step_id'' (JStr c) kvs'))) (cells s),
              put_log := put_log s @ [?k]\<rparr>" by simp
    from get have "?k \<notin> set (get_faults s)" by (simp add: ws_get_json_Inr)
    with s' have get': "ws_get_json s' ?k =
        Inr (JDict (AList.update ''dynamic_output_step_id'' (JStr c) kvs'))"
      by (simp add: ws_get_json_Inr update_conv')
    have out'': "map_of (AList.update ''dynamic_output_step_id'' (JStr c) kvs') ''output_step_id''
        = Some out'"
      using out by (simp add: update_conv')
    have "map_of (AList.update ''dynamic_output_step_id'' (JStr c) kvs') ''dynamic_output_step_id''
        = Some (JStr c)"
      by (simp add: update_conv')
    with get' out'' show ?thesis
      by (intro update_dynamic_output_noop [where out = out']) auto
  qed
next
  assume "ws_get_json s (key_step_output_metadata wid outer) = Inr (JDict kvs)
        \<and> map_of kvs ''output_step_id'' = Some out
        \<and> (out = JStr c \<or> map_of kvs ''dynamic_output_step_id'' = Some (JStr c))"
  then show "update_dynamic_output s wid outer c = Inr s"
    by (intro update_dynamic_output_noop [where out = out and kvs = kvs]) auto
qed

text \<open>
  The theorem at work: step \<open>A\<close> forwards to \<open>B\<close>; the candidate \<open>C\<close> is written by the
  first call and found in place by the second.
\<close>

theorem update_dynamic_output_idempotent_witness:
  "update_dynamic_output
     (store_of [([''wf'', ''steps'', ''A'', ''outputs.json''],
                 Doc (JDict [(''output_step_id'', JStr ''B'')]))]) ''wf'' ''A'' ''C''
   = Inr \<lparr>cells = [([''wf'', ''steps'', ''A'', ''outputs.json''],
                    Doc (JDict [(''output_step_id'', JStr ''B''),
                                (''dynamic_output_step_id'', JStr ''C'')]))],
          get_faults = [], put_faults = [], scan_faults = [],
          put_log = [[''wf'', ''steps'', ''A'', ''outputs.json'']]\<rparr>
   \<and> update_dynamic_output
     \<lparr>cells = [([''wf'', ''steps'', ''A'', ''outputs.json''],
                    Doc (JDict [(''output_step_id'', JStr ''B''),
                                (''dynamic_output_step_id'', JStr ''C'')]))],
          get_faults = [], put_faults = [], scan_faults = [],
          put_log = [[''wf'', ''steps'', ''A'', ''outputs.json'']]\<rparr> ''wf'' ''A'' ''C''
   = Inr \<lparr>cells = [([''wf'', ''steps'', ''A'', ''outputs.json''],
                    Doc (JDict [(''output_step_id'', JStr ''B''),
                                (''dynamic_output_step_id'', JStr ''C'')]))],
          get_faults = [], put_faults = [], scan_faults = [],
          put_log = [[''wf'', ''steps'', ''A'', ''outputs.json'']]\<rparr>"
proof -
  have first: "update_dynamic_output
     (store_of [([''wf'', ''steps'', ''A'', ''outputs.json''],
                 Doc (JDict [(''output_step_id'', JStr ''B'')]))]) ''wf'' ''A'' ''C''
   = Inr \<lparr>cells = [([''wf'', ''steps'', ''A'', ''outputs.json''],
                    Doc (JDict [(''output_step_id'', JStr ''B''),
                                (''dynamic_output_step_id'', JStr ''C'')]))],
          get_faults = [], put_faults = [], scan_faults = [],
          put_log = [[''wf'', ''steps'', ''A'', ''outputs.json'']]\<rparr>"
    by code_simp
  from update_dynamic_output_idempotent [THEN conjunct1, rule_format, OF first] first
  show ?thesis by simp
qed

subsection \<open>Frame of the update, and the pointer lookup\<close>

lemma stored_output_metadata_None:
  "stored_output_metadata s wid sid = None \<Longrightarrow>
   \<exists>e. ws_get_json s (key_step_output_metadata wid sid) = Inl e"
  by (cases "ws_get_json s (key_step_output_metadata wid sid)")
     (auto simp: ws_get_json_Inr stored_output_metadata_def make_key_def)

text \<open>
  Claim C10.  A call of \<open>update_dynamic_output\<close> that succeeds leaves the
  \<open>output_step_id\<close> of the outer-most step's stored output metadata as it was; every
  other key of the store keeps its payload; the call issues no put or one put, to that
  output-metadata key; and when the candidate equals the stored \<open>output_step_id\<close> or the
  stored \<open>dynamic_output_step_id\<close> (the no-op branch) the store is unchanged altogether,
  as it is whenever the log of puts did not grow.
\<close>

theorem update_dynamic_output_frame:
  assumes "update_dynamic_output s wid outer c = Inr s'"
  shows "(\<exists>out. field ''output_step_id'' (stored_output_metadata s wid outer) = Some out
            \<and> field ''output_step_id'' (stored_output_metadata s' wid outer) = Some out)
    \<and> (\<forall>k. k \<noteq> make_key (key_step_output_metadata wid outer) \<longrightarrow>
            map_of (cells s') k = map_of (cells s) k)
    \<and> (put_log s' = put_log s
        \<or> put_log s' = put_log s @ [make_key (key_step_output_metadata wid outer)])
    \<and> (field ''output_step_id'' (stored_output_metadata s wid outer) = Some (JStr c)
        \<or> field ''dynamic_output_step_id'' (stored_output_metadata s wid outer) = Some (JStr c)
        \<longrightarrow> s' = s)
    \<and> (put_log s' = put_log s \<longrightarrow> s' = s)"
proof -
  let ?k = "key_step_output_metadata wid outer"
  from update_dynamic_output_Inr [OF assms] obtain kvs out where
    get: "ws_get_json s ?k = Inr (JDict kvs)"
    and out: "map_of kvs ''output_step_id'' = Some out"
    and how: "(out = JStr c \<or> map_of kvs ''dynamic_output_step_id'' = Some (JStr c)) \<and> s' = s
     \<or> out \<noteq> JStr c \<and> map_of kvs ''dynamic_output_step_id'' \<noteq> Some (JStr c) \<and>
       ?k \<notin> set (put_faults s) \<and>
       s' = s\<lparr>cells := AList.update ?k
                 (Doc (JDict (AList.update ''dynamic_output_step_id'' (JStr c) kvs))) (cells s),
              put_log := put_log s @ [?k]\<rparr>"
    by blast
  have before: "stored_output_metadata s wid outer = Some (JDict kvs)"
    using get by (rule stored_output_metadata_get)
  from how consider
    (noop) "s' = s"
  | (changed) "out \<noteq> JStr c" "map_of kvs ''dynamic_output_step_id'' \<noteq> Some (JStr c)"
      "s' = s\<lparr>cells := AList.update ?k
                 (Doc (JDict (AList.update ''dynamic_output_step_id'' (JStr c) kvs))) (cells s),
              put_log := put_log s @ [?k]\<rparr>"
    by blast
  then show ?thesis
  proof cases
    case noop
    with before out show ?thesis by (simp add: field_def)
  next
    case changed
    note ne = changed(1,2) and s' = changed(3)
    have after: "stored_output_metadata s' wid outer =
        Some (JDict (AList.update ''dynamic_output_step_id'' (JStr c) kvs))"
      using s' by (simp add: stored_output_metadata_def make_key_def update_conv')
    have 1: "\<exists>out. field ''output_step_id'' (stored_output_metadata s wid outer) = Some out
            \<and> field ''output_step_id'' (stored_output_metadata s' wid outer) = Some out"
      using before after out by (simp add: field_def update_conv')
    have 2: "\<forall>k. k \<noteq> make_key ?k \<longrightarrow> map_of (cells s') k = map_of (cells s) k"
      using s' by (simp add: make_key_def update_conv')
    have 3: "put_log s' = put_log s @ [make_key ?k]"
      using s' by (simp add: make_key_def)
    have 4: "\<not> (field ''output_step_id'' (stored_output_metadata s wid outer) = Some (JStr c)
        \<or> field ''dynamic_output_step_id'' (stored_output_metadata s wid outer) = Some (JStr c))"
      using before out ne by (simp add: field_def)
    from 1 2 3 4 show ?thesis by simp
  qed
qed

text \<open>The theorem at work on a store with a second step \<open>B\<close>, whose output stays put.\<close>

theorem update_dynamic_output_frame_witness:
  "update_dynamic_output
     (store_of [([''wf'', ''steps'', ''A'', ''outputs.json''],
                 Doc (JDict [(''output_step_id'', JStr ''B'')])),
                ([''wf'', ''steps'', ''B'', ''output.pkl''], Pickled ''42'')]) ''wf'' ''A'' ''C''
   = Inr \<lparr>cells = [([''wf'', ''steps'', ''A'', ''outputs.json''],
                    Doc (JDict [(''output_step_id'', JStr ''B''),
                                (''dynamic_output_step_id'', JStr ''C'')])),
                   ([''wf'', ''steps'', ''B'', ''output.pkl''], Pickled ''42'')],
          get_faults = [], put_faults = [], scan_faults = [],
          put_log = [[''wf'', ''steps'', ''A'', ''outputs.json'']]\<rparr>
   \<and> field ''output_step_id''
        (stored_output_metadata
          \<lparr>cells = [([''wf'', ''steps'', ''A'', ''outputs.json''],
                    Doc (JDict [(''output_step_id'', JStr ''B''),
                                (''dynamic_output_step_id'', JStr ''C'')])),
                   ([''wf'', ''steps'', ''B'', ''output.pkl''], Pickled ''42'')],
          get_faults = [], put_faults = [], scan_faults = [],
          put_log = [[''wf'', ''steps'', ''A'', ''outputs.json'']]\<rparr> ''wf'' ''A'')
      = Some (JStr ''B'')"
proof -
  have run: "update_dynamic_output
     (store_of [([''wf'', ''steps'', ''A'', ''outputs.json''],
                 Doc (JDict [(''output_step_id'', JStr ''B'')])),
                ([''wf'', ''steps'', ''B'', ''output.pkl''], Pickled ''42'')]) ''wf'' ''A'' ''C''
   = Inr \<lparr>cells = [([''wf'', ''steps'', ''A'', ''outputs.json''],
                    Doc (JDict [(''output_step_id'', JStr ''B''),
                                (''dynamic_output_step_id'', JStr ''C'')])),
                   ([''wf'', ''steps'', ''B'', ''output.pkl''], Pickled ''42'')],
          get_faults = [], put_faults = [], scan_faults = [],
          put_log = [[''wf'', ''steps'', ''A'', ''outputs.json'']]\<rparr>"
    by code_simp
  have before: "field ''output_step_id''
      (stored_output_metadata
        (store_of [([''wf'', ''steps'', ''A'', ''outputs.json''],
                 Doc (JDict [(''output_step_id'', JStr ''B'')])),
                ([''wf'', ''steps'', ''B'', ''output.pkl''], Pickled ''42'')]) ''wf'' ''A'')
      = Some (JStr ''B'')"
    by code_simp
  from update_dynamic_output_frame [OF run, THEN conjunct1] before run
  show ?thesis by auto
qed

text \<open>
  Claim C8.  \<open>locate_output_step_id\<close> returns the stored \<open>dynamic_output_step_id\<close> when
  the field is set, that is present with a value Python takes for true (for a step id:
  a non-empty string), and otherwise the stored \<open>output_step_id\<close>; it fails when the step
  has no output metadata, with KeyNotFoundError when the key is absent and the backend
  answers.  \<open>get_entrypoint_step_id\<close> returns exactly what the lookup from the empty step
  id returns, and when the root has no output metadata it fails with a ValueError whose
  message carries the workflow id.
\<close>

theorem locate_output_step_id_spec:
  "(ws_get_json s (key_step_output_metadata wid sid) = Inr (JDict kvs)
      \<and> map_of kvs ''dynamic_output_step_id'' = Some d \<and> truthy d
     \<longrightarrow> locate_output_step_id s wid sid = Inr d)
   \<and> (ws_get_json s (key_step_output_metadata wid sid) = Inr (JDict kvs)
      \<and> (case map_of kvs ''dynamic_output_step_id'' of None \<Rightarrow> True | Some d' \<Rightarrow> \<not> truthy d')
      \<and> map_of kvs ''output_step_id'' = Some out
     \<longrightarrow> locate_output_step_id s wid sid = Inr out)
   \<and> (stored_output_metadata s wid sid = None \<longrightarrow> isl (locate_output_step_id s wid sid))
   \<and> (map_of (cells s) (make_key (key_step_output_metadata wid sid)) = None
      \<and> make_key (key_step_output_metadata wid sid) \<notin> set (get_faults s)
     \<longrightarrow> locate_output_step_id s wid sid = Inl KeyNotFoundError)
   \<and> (\<forall>v. get_entrypoint_step_id s wid = Inr v \<longleftrightarrow> locate_output_step_id s wid [] = Inr v)
   \<and> (stored_output_metadata s wid [] = None
     \<longrightarrow> get_entrypoint_step_id s wid =
          Inl (ValueError (''Fail to get entrypoint step ID from workflow[id='' @ wid @ '']'')))"
proof (intro conjI impI allI)
  assume "ws_get_json s (key_step_output_metadata wid sid) = Inr (JDict kvs)
      \<and> map_of kvs ''dynamic_output_step_id'' = Some d \<and> truthy d"
  then show "locate_output_step_id s wid sid = Inr d"
    by (simp add: locate_output_step_id_def sbind_def)
next
  assume "ws_get_json s (key_step_output_metadata wid sid) = Inr (JDict kvs)
      \<and> (case map_of kvs ''dynamic_output_step_id'' of None \<Rightarrow> True | Some d' \<Rightarrow> \<not> truthy d')
      \<and> map_of kvs ''output_step_id'' = Some out"
  then show "locate_output_step_id s wid sid = Inr out"
    by (auto simp: locate_output_step_id_def sbind_def split: option.splits)
next
  assume "stored_output_metadata s wid sid = None"
  from stored_output_metadata_None [OF this]
  show "isl (locate_output_step_id s wid sid)"
    by (auto simp: locate_output_step_id_def sbind_def)
next
  assume "map_of (cells s) (make_key (key_step_output_metadata wid sid)) = None
      \<and> make_key (key_step_output_metadata wid sid) \<notin> set (get_faults s)"
  then have "ws_get_json s (key_step_output_metadata wid sid) = Inl KeyNotFoundError"
    by (simp add: ws_get_json_KeyNotFound make_key_def)
  then show "locate_output_step_id s wid sid = Inl KeyNotFoundError"
    by (simp add: locate_output_step_id_def sbind_def)
next
  fix v
  show "get_entrypoint_step_id s wid = Inr v \<longleftrightarrow> locate_output_step_id s wid [] = Inr v"
    by (auto simp: get_entrypoint_step_id_def split: sum.splits)
next
  assume "stored_output_metadata s wid [] = None"
  from stored_output_metadata_None [OF this]
  show "get_entrypoint_step_id s wid =
          Inl (ValueError (''Fail to get entrypoint step ID from workflow[id='' @ wid @ '']''))"
    by (auto simp: get_entrypoint_step_id_def locate_output_step_id_def sbind_def)
qed

text \<open>
  The theorem at work: a step with both fields, a step with \<open>output_step_id\<close> alone, and a
  workflow \<open>wf\<close> whose root has recorded nothing.
\<close>

theorem locate_output_step_id_spec_witness:
  "locate_output_step_id
     (store_of [([''wf'', ''steps'', ''A'', ''outputs.json''],
                 Doc (JDict [(''output_step_id'', JStr ''B''),
                             (''dynamic_output_step_id'', JStr ''C'')]))]) ''wf'' ''A''
     = Inr (JStr ''C'')
   \<and> locate_output_step_id
     (store_of [([''wf'', ''steps'', ''A'', ''outputs.json''],
                 Doc (JDict [(''output_step_id'', JStr ''B'')]))]) ''wf'' ''A''
     = Inr (JStr ''B'')
   \<and> get_entrypoint_step_id
     (store_of [([''wf'', ''steps'', ''A'', ''outputs.json''],
                 Doc (JDict [(''output_step_id'', JStr ''B'')]))]) ''wf''
     = Inl (ValueError ''Fail to get entrypoint step ID from workflow[id=wf]'')"
proof -
  let ?s2 = "store_of [([''wf'', ''steps'', ''A'', ''outputs.json''],
                 Doc (JDict [(''output_step_id'', JStr ''B''),
                             (''dynamic_output_step_id'', JStr ''C'')]))]"
  let ?s1 = "store_of [([''wf'', ''steps'', ''A'', ''outputs.json''],
                 Doc (JDict [(''output_step_id'', JStr ''B'')]))]"
  have a: "ws_get_json ?s2 (key_step_output_metadata ''wf'' ''A'')
        = Inr (JDict [(''output_step_id'', JStr ''B''), (''dynamic_output_step_id'', JStr ''C'')])
      \<and> map_of [(''output_step_id'', JStr ''B''), (''dynamic_output_step_id'', JStr ''C'')]
          ''dynamic_output_step_id'' = Some (JStr ''C'') \<and> truthy (JStr ''C'')"
    by code_simp
  have b: "ws_get_json ?s1 (key_step_output_metadata ''wf'' ''A'')
        = Inr (JDict [(''output_step_id'', JStr ''B'')])
      \<and> (case map_of [(''output_step_id'', JStr ''B'')] ''dynamic_output_step_id'' of
            None \<Rightarrow> True | Some d' \<Rightarrow> \<not> truthy d')
      \<and> map_of [(''output_step_id'', JStr ''B'')] ''output_step_id'' = Some (JStr ''B'')"
    by code_simp
  have c: "stored_output_metadata ?s1 ''wf'' [] = None"
    by code_simp
  note spec = locate_output_step_id_spec
  from spec [THEN conjunct1, rule_format, OF a]
    spec [THEN conjunct2, THEN conjunct1, rule_format, OF b]
    spec [THEN conjunct2, THEN conjunct2, THEN conjunct2, THEN conjunct2, THEN conjunct2,
      rule_format, OF c]
  show ?thesis by simp
qed

subsection \<open>Workflow listing\<close>

text \<open>
  Claim C1.  The listing does not survive a workflow without a metadata record.  With
  metadata for \<open>wf1\<close> alone in the store the listing is \<open>[(wf1, RUNNING)]\<close>.  Once the
  prefix scan also returns \<open>wf2\<close>, which has a step output and no metadata record, the
  load of \<open>wf2\<close>'s record raises KeyNotFoundError inside \<open>asyncio.gather\<close> and the whole
  listing raises it: there is no entry for \<open>wf2\<close>, and none for \<open>wf1\<close> either.  The
  sibling \<open>load_workflow_meta\<close> catches that very exception and returns \<open>None\<close>.  A load
  that fails in the backend aborts the listing in the same way, with DataLoadError.
  The branch \<open>if meta else None\<close> of the listing is reached only for a record that is
  stored and empty.
\<close>

theorem list_workflow_aborts_without_metadata:
  "list_workflow (\<lambda>v. if v = JStr ''RUNNING'' then Some ''RUNNING'' else None)
     (store_of [([''wf1'', ''workflow_meta.json''], Doc (JDict [(''status'', JStr ''RUNNING'')]))])
     = Inr [(''wf1'', Some ''RUNNING'')]
   \<and> scan_prefix
     (store_of [([''wf1'', ''workflow_meta.json''], Doc (JDict [(''status'', JStr ''RUNNING'')])),
                ([''wf2'', ''steps'', ''A'', ''output.pkl''], Pickled ''42'')])
     (make_key [[]]) = Inr [''wf1'', ''wf2'']
   \<and> list_workflow (\<lambda>v. if v = JStr ''RUNNING'' then Some ''RUNNING'' else None)
     (store_of [([''wf1'', ''workflow_meta.json''], Doc (JDict [(''status'', JStr ''RUNNING'')])),
                ([''wf2'', ''steps'', ''A'', ''output.pkl''], Pickled ''42'')])
     = Inl KeyNotFoundError
   \<and> load_workflow_meta (\<lambda>v. if v = JStr ''RUNNING'' then Some ''RUNNING'' else None)
     (store_of [([''wf1'', ''workflow_meta.json''], Doc (JDict [(''status'', JStr ''RUNNING'')])),
                ([''wf2'', ''steps'', ''A'', ''output.pkl''], Pickled ''42'')]) ''wf2''
     = Inr None
   \<and> list_workflow (\<lambda>v. if v = JStr ''RUNNING'' then Some ''RUNNING'' else None)
     ((store_of [([''wf1'', ''workflow_meta.json''], Doc (JDict [(''status'', JStr ''RUNNING'')])),
                 ([''wf2'', ''workflow_meta.json''], Doc (JDict [(''status'', JStr ''RUNNING'')]))])
        \<lparr>get_faults := [[''wf2'', ''workflow_meta.json'']]\<rparr>)
     = Inl DataLoadError"
  by code_simp

subsection \<open>Step inspection\<close>




lemma inspect_step_scanned:
  assumes "ws_scan s (key_step_prefix wid sid) = Inr items"
  shows "inspect_step ST s wid sid =
    (if STEP_OUTPUT \<in> set items
     then Inr (StepInspectResult_default\<lparr>output_object_valid := True\<rparr>)
     else if STEP_OUTPUTS_METADATA \<in> set items
     then (case locate_output_step_id s wid sid of
             Inl e \<Rightarrow> Inl e
           | Inr p \<Rightarrow> Inr (StepInspectResult_default\<lparr>output_step_id := p\<rparr>))
     else (case inspect_inputs ST s wid sid
                  \<lparr>output_object_exists = False, output_metadata_exists = False,
                   input_metadata_exists = (STEP_INPUTS_METADATA \<in> set items),
                   args_exists = (STEP_ARGS \<in> set items),
                   func_body_exists = (STEP_FUNC_BODY \<in> set items)\<rparr> of
             Inr r \<Rightarrow> Inr r
           | Inl e \<Rightarrow> Inr (StepInspectResult_default
                            \<lparr>args_valid := (STEP_ARGS \<in> set items),
                             func_body_valid := (STEP_FUNC_BODY \<in> set items)\<rparr>)))"
  using assms by (simp add: inspect_step_def sbind_def Let_def split: sum.splits)

text \<open>When the \<open>try\<close> block of the inspection runs to its end.\<close>

lemma inspect_inputs_Inr:
  "inspect_inputs ST s wid sid fl = Inr r \<longleftrightarrow>
     (\<exists>kvs orefs wfs wrefs ty.
        ws_get_json s (key_step_input_metadata wid sid) = Inr (JDict kvs) \<and>
        map_of kvs ''object_refs'' = Some orefs \<and>
        map_of kvs ''workflows'' = Some wfs \<and>
        map_of kvs ''workflow_refs'' = Some wrefs \<and>
        enum_getitem ST (case map_of kvs ''step_type'' of None \<Rightarrow> JNull | Some t \<Rightarrow> t) = Inr ty \<and>
        r = StepInspectResult_default
              \<lparr>args_valid := args_exists fl, func_body_valid := func_body_exists fl,
               object_refs := orefs, workflows := wfs, workflow_refs := wrefs,
               max_retries := (case map_of kvs ''max_retries'' of None \<Rightarrow> JNull | Some v \<Rightarrow> v),
               catch_exceptions :=
                 (case map_of kvs ''catch_exceptions'' of None \<Rightarrow> JNull | Some v \<Rightarrow> v),
               ray_options :=
                 (case map_of kvs ''ray_options'' of None \<Rightarrow> JDict [] | Some v \<Rightarrow> v),
               step_type := Some ty\<rparr>)"
proof (cases "ws_get_json s (key_step_input_metadata wid sid)")
  case (Inl e)
  then show ?thesis by (simp add: inspect_inputs_def sbind_def)
next
  case (Inr m)
  show ?thesis
  proof (cases m)
    case (JDict kvs)
    with Inr show ?thesis
      by (auto simp: inspect_inputs_def sbind_def split: option.splits sum.splits)
  qed (use Inr in \<open>simp_all add: inspect_inputs_def sbind_def\<close>)
qed




text \<open>
  Claim C2, as stated, fails.  The step \<open>A\<close> below has neither an output nor output
  metadata; its input metadata is stored and carries the step-type tag \<open>BOGUS\<close>, which is
  no member of the enumeration.  The lookup \<open>StepType[...]\<close> raises KeyError inside the
  \<open>try\<close> block, \<open>except Exception\<close> catches it, and the inspection returns the reduced
  verdict instead of failing.
\<close>

theorem inspect_step_unknown_step_type_returns:
  "enum_getitem (\<lambda>n. if n = ''FUNCTION'' then Some ''FUNCTION'' else None) (JStr ''BOGUS'')
     = Inl (KeyError (JStr ''BOGUS''))
   \<and> ws_scan
     (store_of
        [([''wf'', ''steps'', ''A'', ''inputs.json''],
          Doc (JDict [(''object_refs'', JList []), (''workflows'', JList []),
                      (''workflow_refs'', JList []), (''step_type'', JStr ''BOGUS'')])),
         ([''wf'', ''steps'', ''A'', ''args.pkl''], Pickled ''args''),
         ([''wf'', ''steps'', ''A'', ''func_body.pkl''], Pickled ''body'')])
     (key_step_prefix ''wf'' ''A'') = Inr [''inputs.json'', ''args.pkl'', ''func_body.pkl'']
   \<and> inspect_step (\<lambda>n. if n = ''FUNCTION'' then Some ''FUNCTION'' else None)
     (store_of
        [([''wf'', ''steps'', ''A'', ''inputs.json''],
          Doc (JDict [(''object_refs'', JList []), (''workflows'', JList []),
                      (''workflow_refs'', JList []), (''step_type'', JStr ''BOGUS'')])),
         ([''wf'', ''steps'', ''A'', ''args.pkl''], Pickled ''args''),
         ([''wf'', ''steps'', ''A'', ''func_body.pkl''], Pickled ''body'')]) ''wf'' ''A''
     = Inr (StepInspectResult_default\<lparr>args_valid := True, func_body_valid := True\<rparr>)"
  by code_simp

text \<open>
  Claim C2, amended.  For every step whose concrete output artifact and output metadata
  are both absent from the scan and whose input metadata is stored as a dict carrying a
  step-type tag on which the lookup in the enumeration raises, the inspection does not
  fail: it returns the reduced verdict, which carries the existence of the arguments and
  function-body artifacts and the defaults in every other field.
\<close>

theorem inspect_step_unknown_step_type:
  assumes "ws_scan s (key_step_prefix wid sid) = Inr items"
    and "STEP_OUTPUT \<notin> set items" and "STEP_OUTPUTS_METADATA \<notin> set items"
    and "ws_get_json s (key_step_input_metadata wid sid) = Inr (JDict kvs)"
    and "map_of kvs ''step_type'' = Some tag"
    and "enum_getitem ST tag = Inl e"
  shows "inspect_step ST s wid sid =
     Inr (StepInspectResult_default
            \<lparr>args_valid := (STEP_ARGS \<in> set items),
             func_body_valid := (STEP_FUNC_BODY \<in> set items)\<rparr>)"
proof -
  let ?fl = "\<lparr>output_object_exists = False, output_metadata_exists = False,
                   input_metadata_exists = (STEP_INPUTS_METADATA \<in> set items),
                   args_exists = (STEP_ARGS \<in> set items),
                   func_body_exists = (STEP_FUNC_BODY \<in> set items)\<rparr>"
  have "\<nexists>r. inspect_inputs ST s wid sid ?fl = Inr r"
    using assms(4-6) by (auto simp: inspect_inputs_Inr)
  then obtain e' where "inspect_inputs ST s wid sid ?fl = Inl e'"
    by (cases "inspect_inputs ST s wid sid ?fl") auto
  with assms(1-3) show ?thesis by (simp add: inspect_step_scanned)
qed

text \<open>The theorem at work on a step that has a tagged input metadata and nothing else.\<close>

theorem inspect_step_unknown_step_type_witness:
  "inspect_step (\<lambda>n. if n = ''FUNCTION'' then Some ''FUNCTION'' else None)
     (store_of
        [([''wf'', ''steps'', ''S'', ''inputs.json''],
          Doc (JDict [(''object_refs'', JList []), (''workflows'', JList []),
                      (''workflow_refs'', JList []), (''step_type'', JStr ''ACTOR'')]))])
     ''wf'' ''S''
     = Inr (StepInspectResult_default\<lparr>args_valid := False, func_body_valid := False\<rparr>)"
proof -
  let ?ST = "\<lambda>n. if n = ''FUNCTION'' then Some ''FUNCTION'' else None"
  let ?kvs = "[(''object_refs'', JList []), (''workflows'', JList []),
                      (''workflow_refs'', JList []), (''step_type'', JStr ''ACTOR'')]"
  let ?s = "store_of [([''wf'', ''steps'', ''S'', ''inputs.json''], Doc (JDict ?kvs))]"
  have 1: "ws_scan ?s (key_step_prefix ''wf'' ''S'') = Inr [''inputs.json'']" by code_simp
  have 2: "STEP_OUTPUT \<notin> set [''inputs.json'']" by code_simp
  have 3: "STEP_OUTPUTS_METADATA \<notin> set [''inputs.json'']" by code_simp
  have 4: "ws_get_json ?s (key_step_input_metadata ''wf'' ''S'') = Inr (JDict ?kvs)"
    by code_simp
  have 5: "map_of ?kvs ''step_type'' = Some (JStr ''ACTOR'')" by code_simp
  have 6: "enum_getitem ?ST (JStr ''ACTOR'') = Inl (KeyError (JStr ''ACTOR''))" by code_simp
  have 7: "(STEP_ARGS \<in> set [''inputs.json'']) = False" by code_simp
  have 8: "(STEP_FUNC_BODY \<in> set [''inputs.json'']) = False" by code_simp
  from inspect_step_unknown_step_type [OF 1 2 3 4 5 6]
  show ?thesis unfolding 7 8 .
qed

text \<open>
  Claim C5, as stated, fails in both directions.  Step \<open>A\<close> has output metadata whose
  \<open>output_step_id\<close> is the empty string: the inspection returns the forwarded verdict
  carrying the empty pointer, and \<open>is_recoverable\<close>, which tests the truth value of
  \<open>output_step_id\<close>, classifies it as not recoverable.  Step \<open>B\<close> has arguments, function
  body and input metadata whose \<open>workflow_refs\<close> is null: the list of dynamic workflow
  references is unknown in the verdict, and \<open>is_recoverable\<close>, which does not consult
  \<open>workflow_refs\<close>, classifies it as recoverable.
\<close>

theorem is_recoverable_not_as_claimed:
  "inspect_step (\<lambda>n. if n = ''FUNCTION'' then Some ''FUNCTION'' else None)
     (store_of
        [([''wf'', ''steps'', ''A'', ''outputs.json''], Doc (JDict [(''output_step_id'', JStr [])])),
         ([''wf'', ''steps'', ''B'', ''inputs.json''],
          Doc (JDict [(''object_refs'', JList []), (''workflows'', JList []),
                      (''workflow_refs'', JNull), (''step_type'', JStr ''FUNCTION'')])),
         ([''wf'', ''steps'', ''B'', ''args.pkl''], Pickled ''args''),
         ([''wf'', ''steps'', ''B'', ''func_body.pkl''], Pickled ''body'')]) ''wf'' ''A''
     = Inr (StepInspectResult_default\<lparr>output_step_id := JStr []\<rparr>)
   \<and> \<not> is_recoverable
         ((StepInspectResult_default\<lparr>output_step_id := JStr []\<rparr>) :: string StepInspectResult)
   \<and> inspect_step (\<lambda>n. if n = ''FUNCTION'' then Some ''FUNCTION'' else None)
     (store_of
        [([''wf'', ''steps'', ''A'', ''outputs.json''], Doc (JDict [(''output_step_id'', JStr [])])),
         ([''wf'', ''steps'', ''B'', ''inputs.json''],
          Doc (JDict [(''object_refs'', JList []), (''workflows'', JList []),
                      (''workflow_refs'', JNull), (''step_type'', JStr ''FUNCTION'')])),
         ([''wf'', ''steps'', ''B'', ''args.pkl''], Pickled ''args''),
         ([''wf'', ''steps'', ''B'', ''func_body.pkl''], Pickled ''body'')]) ''wf'' ''B''
     = Inr (StepInspectResult_default
              \<lparr>args_valid := True, func_body_valid := True,
               object_refs := JList [], workflows := JList [], workflow_refs := JNull,
               max_retries := JNull, catch_exceptions := JNull, ray_options := JDict [],
               step_type := Some ''FUNCTION''\<rparr>)
   \<and> is_recoverable
         (StepInspectResult_default
              \<lparr>args_valid := True, func_body_valid := True,
               object_refs := JList [], workflows := JList [], workflow_refs := JNull,
               max_retries := JNull, catch_exceptions := JNull, ray_options := JDict [],
               step_type := Some ''FUNCTION''\<rparr>)"
  by code_simp

text \<open>
  Claim C5, amended.  For every verdict the inspection returns, the step is classified
  recoverable if and only if the concrete output artifact is listed (directly satisfied),
  or the output metadata is listed and the pointer resolved from it is non-empty (true for
  Python), or no output metadata is listed and the input metadata is stored as a dict that
  has the three dependency lists and a step-type tag of the enumeration, the arguments
  artifact and the function-body artifact are listed, and the object-reference list and
  the workflow list are not null.  The list of dynamic workflow references is not
  consulted.
\<close>

theorem is_recoverable_inspect_step:
  assumes "inspect_step ST s wid sid = Inr v"
  shows "\<exists>items. ws_scan s (key_step_prefix wid sid) = Inr items \<and>
    (is_recoverable v \<longleftrightarrow>
       STEP_OUTPUT \<in> set items
     \<or> (STEP_OUTPUTS_METADATA \<in> set items
         \<and> (\<exists>ptr. locate_output_step_id s wid sid = Inr ptr \<and> truthy ptr))
     \<or> (STEP_OUTPUTS_METADATA \<notin> set items
         \<and> (\<exists>kvs orefs wfs wrefs ty.
               ws_get_json s (key_step_input_metadata wid sid) = Inr (JDict kvs)
             \<and> map_of kvs ''object_refs'' = Some orefs \<and> orefs \<noteq> JNull
             \<and> map_of kvs ''workflows'' = Some wfs \<and> wfs \<noteq> JNull
             \<and> map_of kvs ''workflow_refs'' = Some wrefs
             \<and> enum_getitem ST (case map_of kvs ''step_type'' of None \<Rightarrow> JNull | Some t \<Rightarrow> t)
                 = Inr ty)
         \<and> STEP_ARGS \<in> set items \<and> STEP_FUNC_BODY \<in> set items))"
proof -
  from assms obtain items where scan: "ws_scan s (key_step_prefix wid sid) = Inr items"
    by (cases "ws_scan s (key_step_prefix wid sid)") (auto simp: inspect_step_def sbind_def)
  note run = assms [unfolded inspect_step_scanned [OF scan]]
  let ?fl = "\<lparr>output_object_exists = False, output_metadata_exists = False,
                   input_metadata_exists = (STEP_INPUTS_METADATA \<in> set items),
                   args_exists = (STEP_ARGS \<in> set items),
                   func_body_exists = (STEP_FUNC_BODY \<in> set items)\<rparr>"
  let ?loaded = "\<exists>kvs orefs wfs wrefs ty.
               ws_get_json s (key_step_input_metadata wid sid) = Inr (JDict kvs)
             \<and> map_of kvs ''object_refs'' = Some orefs \<and> orefs \<noteq> JNull
             \<and> map_of kvs ''workflows'' = Some wfs \<and> wfs \<noteq> JNull
             \<and> map_of kvs ''workflow_refs'' = Some wrefs
             \<and> enum_getitem ST (case map_of kvs ''step_type'' of None \<Rightarrow> JNull | Some t \<Rightarrow> t)
                 = Inr ty"
  have "is_recoverable v \<longleftrightarrow>
       STEP_OUTPUT \<in> set items
     \<or> (STEP_OUTPUTS_METADATA \<in> set items
         \<and> (\<exists>ptr. locate_output_step_id s wid sid = Inr ptr \<and> truthy ptr))
     \<or> (STEP_OUTPUTS_METADATA \<notin> set items \<and> ?loaded
         \<and> STEP_ARGS \<in> set items \<and> STEP_FUNC_BODY \<in> set items)"
  proof (cases "STEP_OUTPUT \<in> set items")
    case True
    with run have "v = StepInspectResult_default\<lparr>output_object_valid := True\<rparr>" by simp
    with True show ?thesis by (simp add: is_recoverable_def)
  next
    case no_out: False
    show ?thesis
    proof (cases "STEP_OUTPUTS_METADATA \<in> set items")
      case True
      with run no_out obtain ptr where ptr: "locate_output_step_id s wid sid = Inr ptr"
        and v: "v = StepInspectResult_default\<lparr>output_step_id := ptr\<rparr>"
        by (auto split: sum.splits)
      from v have "is_recoverable v \<longleftrightarrow> truthy ptr"
        by (simp add: is_recoverable_def StepInspectResult_default_def)
      with True no_out ptr show ?thesis by simp
    next
      case no_meta: False
      show ?thesis
      proof (cases "inspect_inputs ST s wid sid ?fl")
        case (Inl e)
        with run no_out no_meta have v: "v = StepInspectResult_default
                            \<lparr>args_valid := (STEP_ARGS \<in> set items),
                             func_body_valid := (STEP_FUNC_BODY \<in> set items)\<rparr>"
          by simp
        then have nrec: "\<not> is_recoverable v"
          by (simp add: is_recoverable_def StepInspectResult_default_def)
        have "\<not> ?loaded"
        proof
          assume ?loaded
          then have "\<exists>r. inspect_inputs ST s wid sid ?fl = Inr r"
            unfolding inspect_inputs_Inr by blast
          with Inl show False by simp
        qed
        with nrec no_out no_meta show ?thesis by simp
      next
        case (Inr r)
        with run no_out no_meta have vr: "v = r" by simp
        from Inr obtain kvs orefs wfs wrefs ty where
          get: "ws_get_json s (key_step_input_metadata wid sid) = Inr (JDict kvs)"
          and look: "map_of kvs ''object_refs'' = Some orefs" "map_of kvs ''workflows'' = Some wfs"
            "map_of kvs ''workflow_refs'' = Some wrefs"
            "enum_getitem ST (case map_of kvs ''step_type'' of None \<Rightarrow> JNull | Some t \<Rightarrow> t) = Inr ty"
          and flds: "\<not> output_object_valid r" "output_step_id r = JNull"
            "args_valid r = (STEP_ARGS \<in> set items)"
            "func_body_valid r = (STEP_FUNC_BODY \<in> set items)"
            "object_refs r = orefs" "workflows r = wfs"
          unfolding inspect_inputs_Inr by (auto simp: StepInspectResult_default_def)
        have "?loaded \<longleftrightarrow> orefs \<noteq> JNull \<and> wfs \<noteq> JNull"
          using get look by auto
        moreover from flds have "is_recoverable r \<longleftrightarrow>
            STEP_ARGS \<in> set items \<and> orefs \<noteq> JNull \<and> wfs \<noteq> JNull \<and> STEP_FUNC_BODY \<in> set items"
          by (simp add: is_recoverable_def)
        ultimately show ?thesis using vr no_out no_meta by auto
      qed
    qed
  qed
  with scan show ?thesis by blast
qed

text \<open>
  The theorem at work: step \<open>B\<close> has input metadata, arguments and a function body, and
  is recoverable by the third alternative.
\<close>

theorem is_recoverable_inspect_step_witness:
  "inspect_step (\<lambda>n. if n = ''FUNCTION'' then Some ''FUNCTION'' else None)
     (store_of
        [([''wf'', ''steps'', ''B'', ''inputs.json''],
          Doc (JDict [(''object_refs'', JList []), (''workflows'', JList [JStr ''A'']),
                      (''workflow_refs'', JList []), (''step_type'', JStr ''FUNCTION'')])),
         ([''wf'', ''steps'', ''B'', ''args.pkl''], Pickled ''args''),
         ([''wf'', ''steps'', ''B'', ''func_body.pkl''], Pickled ''body'')]) ''wf'' ''B''
     = Inr (StepInspectResult_default
              \<lparr>args_valid := True, func_body_valid := True,
               object_refs := JList [], workflows := JList [JStr ''A''],
               workflow_refs := JList [],
               max_retries := JNull, catch_exceptions := JNull, ray_options := JDict [],
               step_type := Some ''FUNCTION''\<rparr>)
   \<and> is_recoverable
         (StepInspectResult_default
              \<lparr>args_valid := True, func_body_valid := True,
               object_refs := JList [], workflows := JList [JStr ''A''],
               workflow_refs := JList [],
               max_retries := JNull, catch_exceptions := JNull, ray_options := JDict [],
               step_type := Some ''FUNCTION''\<rparr>)"
proof -
  let ?ST = "\<lambda>n. if n = ''FUNCTION'' then Some ''FUNCTION'' else None"
  let ?kvs = "[(''object_refs'', JList []), (''workflows'', JList [JStr ''A'']),
                      (''workflow_refs'', JList []), (''step_type'', JStr ''FUNCTION'')]"
  let ?s = "store_of
        [([''wf'', ''steps'', ''B'', ''inputs.json''], Doc (JDict ?kvs)),
         ([''wf'', ''steps'', ''B'', ''args.pkl''], Pickled ''args''),
         ([''wf'', ''steps'', ''B'', ''func_body.pkl''], Pickled ''body'')]"
  let ?v = "StepInspectResult_default
              \<lparr>args_valid := True, func_body_valid := True,
               object_refs := JList [], workflows := JList [JStr ''A''],
               workflow_refs := JList [],
               max_retries := JNull, catch_exceptions := JNull, ray_options := JDict [],
               step_type := Some ''FUNCTION''\<rparr>"
  have run: "inspect_step ?ST ?s ''wf'' ''B'' = Inr ?v" by code_simp
  have scan: "ws_scan ?s (key_step_prefix ''wf'' ''B'')
      = Inr [''inputs.json'', ''args.pkl'', ''func_body.pkl'']" by code_simp
  have listed: "STEP_OUTPUTS_METADATA \<notin> set [''inputs.json'', ''args.pkl'', ''func_body.pkl'']
      \<and> STEP_ARGS \<in> set [''inputs.json'', ''args.pkl'', ''func_body.pkl'']
      \<and> STEP_FUNC_BODY \<in> set [''inputs.json'', ''args.pkl'', ''func_body.pkl'']"
    by code_simp
  have loaded: "ws_get_json ?s (key_step_input_metadata ''wf'' ''B'') = Inr (JDict ?kvs)
      \<and> map_of ?kvs ''object_refs'' = Some (JList []) \<and> JList [] \<noteq> JNull
      \<and> map_of ?kvs ''workflows'' = Some (JList [JStr ''A'']) \<and> JList [JStr ''A''] \<noteq> JNull
      \<and> map_of ?kvs ''workflow_refs'' = Some (JList [])
      \<and> enum_getitem ?ST (case map_of ?kvs ''step_type'' of None \<Rightarrow> JNull | Some t \<Rightarrow> t)
           = Inr ''FUNCTION''"
    by code_simp
  from is_recoverable_inspect_step [OF run] scan
  have "is_recoverable ?v \<longleftrightarrow>
       STEP_OUTPUT \<in> set [''inputs.json'', ''args.pkl'', ''func_body.pkl'']
     \<or> (STEP_OUTPUTS_METADATA \<in> set [''inputs.json'', ''args.pkl'', ''func_body.pkl'']
         \<and> (\<exists>ptr. locate_output_step_id ?s ''wf'' ''B'' = Inr ptr \<and> truthy ptr))
     \<or> (STEP_OUTPUTS_METADATA \<notin> set [''inputs.json'', ''args.pkl'', ''func_body.pkl'']
         \<and> (\<exists>kvs orefs wfs wrefs ty.
               ws_get_json ?s (key_step_input_metadata ''wf'' ''B'') = Inr (JDict kvs)
             \<and> map_of kvs ''object_refs'' = Some orefs \<and> orefs \<noteq> JNull
             \<and> map_of kvs ''workflows'' = Some wfs \<and> wfs \<noteq> JNull
             \<and> map_of kvs ''workflow_refs'' = Some wrefs
             \<and> enum_getitem ?ST (case map_of kvs ''step_type'' of None \<Rightarrow> JNull | Some t \<Rightarrow> t)
                 = Inr ty)
         \<and> STEP_ARGS \<in> set [''inputs.json'', ''args.pkl'', ''func_body.pkl'']
         \<and> STEP_FUNC_BODY \<in> set [''inputs.json'', ''args.pkl'', ''func_body.pkl''])"
    by (elim exE conjE) (simp only: sum.inject)
  moreover from loaded have "\<exists>kvs orefs wfs wrefs ty.
               ws_get_json ?s (key_step_input_metadata ''wf'' ''B'') = Inr (JDict kvs)
             \<and> map_of kvs ''object_refs'' = Some orefs \<and> orefs \<noteq> JNull
             \<and> map_of kvs ''workflows'' = Some wfs \<and> wfs \<noteq> JNull
             \<and> map_of kvs ''workflow_refs'' = Some wrefs
             \<and> enum_getitem ?ST (case map_of kvs ''step_type'' of None \<Rightarrow> JNull | Some t \<Rightarrow> t)
                 = Inr ty"
    by blast
  ultimately have "is_recoverable ?v" using listed by blast
  with run show ?thesis by blast
qed

subsection \<open>Step name counter\<close>

lemma gen_step_id_absent:
  assumes "map_of (cells s) (key_num_steps_with_name wid name) = None"
    and "key_num_steps_with_name wid name \<notin> set (get_faults s)"
    and "key_num_steps_with_name wid name \<notin> set (put_faults s)"
  shows "gen_step_id s wid name =
     Inr (0, s\<lparr>cells := AList.update (key_num_steps_with_name wid name) (Doc (JInt 0)) (cells s),
               put_log := put_log s @ [key_num_steps_with_name wid name]\<rparr>)"
proof -
  from assms(1,2) have "ws_get_json s (key_num_steps_with_name wid name) = Inl KeyNotFoundError"
    by (simp add: ws_get_json_KeyNotFound)
  moreover from assms(3) have "ws_put_json s (key_num_steps_with_name wid name) (JInt 0) =
     Inr (s\<lparr>cells := AList.update (key_num_steps_with_name wid name) (Doc (JInt 0)) (cells s),
               put_log := put_log s @ [key_num_steps_with_name wid name]\<rparr>)"
    by (simp add: ws_put_json_def ws_put_payload_Inr)
  ultimately show ?thesis by (simp add: gen_step_id_def sbind_def Let_def)
qed

lemma gen_step_id_stored:
  assumes "map_of (cells s) (key_num_steps_with_name wid name) = Some (Doc (JInt n))"
    and "key_num_steps_with_name wid name \<notin> set (get_faults s)"
    and "key_num_steps_with_name wid name \<notin> set (put_faults s)"
  shows "gen_step_id s wid name =
     Inr (n + 1,
          s\<lparr>cells := AList.update (key_num_steps_with_name wid name) (Doc (JInt (n + 1))) (cells s),
            put_log := put_log s @ [key_num_steps_with_name wid name]\<rparr>)"
proof -
  from assms(1,2) have "ws_get_json s (key_num_steps_with_name wid name) = Inr (JInt n)"
    by (simp add: ws_get_json_Inr)
  moreover from assms(3) have
    "ws_put_json s (key_num_steps_with_name wid name) (JInt (n + 1)) =
     Inr (s\<lparr>cells := AList.update (key_num_steps_with_name wid name) (Doc (JInt (n + 1))) (cells s),
            put_log := put_log s @ [key_num_steps_with_name wid name]\<rparr>)"
    by (simp add: ws_put_json_def ws_put_payload_Inr)
  ultimately show ?thesis by (simp add: gen_step_id_def sbind_def Let_def)
qed

text \<open>From a stored counter \<open>n\<close>, the next \<open>k\<close> calls return \<open>n + 1, ..., n + k\<close>.\<close>

lemma gen_step_ids_stored:
  assumes "map_of (cells s) (key_num_steps_with_name wid name) = Some (Doc (JInt n))"
    and "key_num_steps_with_name wid name \<notin> set (get_faults s)"
    and "key_num_steps_with_name wid name \<notin> set (put_faults s)"
  shows "\<exists>s'. gen_step_ids k s wid name = Inr (map (\<lambda>i. n + 1 + int i) [0..<k], s')
     \<and> map_of (cells s') (key_num_steps_with_name wid name) = Some (Doc (JInt (n + int k)))"
  using assms
proof (induction k arbitrary: s n)
  case 0
  then show ?case by simp
next
  case (Suc k)
  let ?key = "key_num_steps_with_name wid name"
  let ?s1 = "s\<lparr>cells := AList.update ?key (Doc (JInt (n + 1))) (cells s),
            put_log := put_log s @ [?key]\<rparr>"
  have first: "gen_step_id s wid name = Inr (n + 1, ?s1)"
    using Suc.prems by (rule gen_step_id_stored)
  have "map_of (cells ?s1) ?key = Some (Doc (JInt (n + 1)))"
    by (simp add: update_conv')
  moreover have "?key \<notin> set (get_faults ?s1)" "?key \<notin> set (put_faults ?s1)"
    using Suc.prems by simp_all
  ultimately obtain s' where
    rest: "gen_step_ids k ?s1 wid name = Inr (map (\<lambda>i. n + 1 + 1 + int i) [0..<k], s')"
    and cnt: "map_of (cells s') ?key = Some (Doc (JInt (n + 1 + int k)))"
    using Suc.IH [of ?s1 "n + 1"] by blast
  have "map (\<lambda>i. n + 1 + int i) [0..<Suc k] = (n + 1) # map (\<lambda>i. n + 1 + 1 + int i) [0..<k]"
    by (simp add: map_upt_Suc add.assoc del: upt_Suc)
  with first rest have "gen_step_ids (Suc k) s wid name
      = Inr (map (\<lambda>i. n + 1 + int i) [0..<Suc k], s')"
    by (simp add: sbind_def del: upt_Suc)
  moreover from cnt have "map_of (cells s') ?key = Some (Doc (JInt (n + int (Suc k))))"
    by (simp add: add.assoc add.commute)
  ultimately show ?case by blast
qed

text \<open>
  Claim C7.  On a backend that serves the counter's key, \<open>k\<close> calls of \<open>gen_step_id\<close> for
  one name, starting from an absent counter record, return \<open>0, 1, ..., k - 1\<close> in order,
  and for \<open>k \<ge> 1\<close> leave the counter \<open>k - 1\<close> stored.  The first call stores \<open>0\<close> and
  returns \<open>0\<close>; a call that finds the counter \<open>n\<close> stores \<open>n + 1\<close> and returns it.
\<close>

theorem gen_step_id_sequence:
  assumes "key_num_steps_with_name wid name \<notin> set (get_faults s)"
    and "key_num_steps_with_name wid name \<notin> set (put_faults s)"
  shows "(map_of (cells s) (make_key (key_num_steps_with_name wid name)) = None \<longrightarrow>
       (\<exists>s'. gen_step_ids k s wid name = Inr (map int [0..<k], s')
          \<and> (0 < k \<longrightarrow> map_of (cells s') (make_key (key_num_steps_with_name wid name))
                = Some (Doc (JInt (int k - 1)))))
       \<and> (\<exists>s'. gen_step_id s wid name = Inr (0, s')
          \<and> map_of (cells s') (make_key (key_num_steps_with_name wid name))
                = Some (Doc (JInt 0))))
   \<and> (map_of (cells s) (make_key (key_num_steps_with_name wid name)) = Some (Doc (JInt n)) \<longrightarrow>
       (\<exists>s'. gen_step_id s wid name = Inr (n + 1, s')
          \<and> map_of (cells s') (make_key (key_num_steps_with_name wid name))
                = Some (Doc (JInt (n + 1)))))"
proof (intro conjI impI)
  let ?key = "key_num_steps_with_name wid name"
  let ?s0 = "s\<lparr>cells := AList.update ?key (Doc (JInt 0)) (cells s),
               put_log := put_log s @ [?key]\<rparr>"
  assume "map_of (cells s) (make_key ?key) = None"
  then have absent: "map_of (cells s) ?key = None" by (simp add: make_key_def)
  have first: "gen_step_id s wid name = Inr (0, ?s0)"
    using absent assms by (rule gen_step_id_absent)
  have stored0: "map_of (cells ?s0) ?key = Some (Doc (JInt 0))"
    by (simp add: update_conv')
  from first stored0 show "\<exists>s'. gen_step_id s wid name = Inr (0, s')
          \<and> map_of (cells s') (make_key ?key) = Some (Doc (JInt 0))"
    by (simp add: make_key_def)
  show "\<exists>s'. gen_step_ids k s wid name = Inr (map int [0..<k], s')
          \<and> (0 < k \<longrightarrow> map_of (cells s') (make_key ?key) = Some (Doc (JInt (int k - 1))))"
  proof (cases k)
    case 0
    then show ?thesis by simp
  next
    case (Suc j)
    have "?key \<notin> set (get_faults ?s0)" "?key \<notin> set (put_faults ?s0)"
      using assms by simp_all
    with stored0 obtain s' where
      rest: "gen_step_ids j ?s0 wid name = Inr (map (\<lambda>i. 0 + 1 + int i) [0..<j], s')"
      and cnt: "map_of (cells s') ?key = Some (Doc (JInt (0 + int j)))"
      using gen_step_ids_stored [of ?s0 wid name 0 j] by blast
    have "map int [0..<Suc j] = 0 # map (\<lambda>i. 0 + 1 + int i) [0..<j]"
      by (simp add: map_upt_Suc del: upt_Suc)
    with first rest have "gen_step_ids (Suc j) s wid name = Inr (map int [0..<Suc j], s')"
      by (simp add: sbind_def del: upt_Suc)
    with cnt Suc show ?thesis by (auto simp: make_key_def)
  qed
next
  let ?key = "key_num_steps_with_name wid name"
  assume "map_of (cells s) (make_key ?key) = Some (Doc (JInt n))"
  then have "map_of (cells s) ?key = Some (Doc (JInt n))" by (simp add: make_key_def)
  from gen_step_id_stored [OF this assms]
  show "\<exists>s'. gen_step_id s wid name = Inr (n + 1, s')
          \<and> map_of (cells s') (make_key ?key) = Some (Doc (JInt (n + 1)))"
    by (simp add: make_key_def update_conv')
qed

text \<open>The theorem at work: four ids for the name \<open>train\<close> in an empty store.\<close>

theorem gen_step_id_sequence_witness:
  "\<exists>s'. gen_step_ids 4 (store_of []) ''wf'' ''train'' = Inr ([0, 1, 2, 3], s')
     \<and> map_of (cells s') (make_key (key_num_steps_with_name ''wf'' ''train''))
         = Some (Doc (JInt 3))"
proof -
  have 1: "key_num_steps_with_name ''wf'' ''train'' \<notin> set (get_faults (store_of []))"
    by (simp add: store_of_def)
  have 2: "key_num_steps_with_name ''wf'' ''train'' \<notin> set (put_faults (store_of []))"
    by (simp add: store_of_def)
  have 3: "map_of (cells (store_of [])) (make_key (key_num_steps_with_name ''wf'' ''train''))
      = None"
    by (simp add: store_of_def)
  have 4: "map int [0..<4] = [0, 1, 2, 3]" by code_simp
  have 5: "int 4 - 1 = 3" by simp
  from gen_step_id_sequence [OF 1 2, where k = 4, THEN conjunct1, rule_format, OF 3, THEN conjunct1]
  obtain s' where run: "gen_step_ids 4 (store_of []) ''wf'' ''train'' = Inr (map int [0..<4], s')"
    and cnt: "0 < (4::nat) \<longrightarrow>
        map_of (cells s') (make_key (key_num_steps_with_name ''wf'' ''train''))
          = Some (Doc (JInt (int 4 - 1)))"
    by (elim exE conjE) (rule that)
  from cnt have "map_of (cells s') (make_key (key_num_steps_with_name ''wf'' ''train''))
          = Some (Doc (JInt 3))"
    unfolding 5 by simp
  with run [unfolded 4] show ?thesis by blast
qed

subsection \<open>Saving a step's output\<close>

lemma update_dynamic_output_other_key:
  assumes "update_dynamic_output s wid outer c = Inr s'"
    and "k \<noteq> key_step_output_metadata wid outer"
  shows "map_of (cells s') k = map_of (cells s) k"
  using update_dynamic_output_Inr [OF assms(1)] assms(2)
  by (auto simp: update_conv')

lemma key_step_output_metadata_inject:
  "key_step_output_metadata wid a = key_step_output_metadata wid b \<longleftrightarrow> a = b"
  by (simp add: key_step_output_metadata_def)

lemma stored_output_metadata_cong:
  "map_of (cells s') (key_step_output_metadata wid sid)
     = map_of (cells s) (key_step_output_metadata wid sid) \<Longrightarrow>
   stored_output_metadata s' wid sid = stored_output_metadata s wid sid"
  by (simp add: stored_output_metadata_def make_key_def)

text \<open>
  The shortcut update run as a task, with the candidate that the step's own metadata
  already points to: the step's metadata stays.
\<close>

lemma attempt_update_keeps_pointing:
  assumes "stored_output_metadata s wid sid = Some (JDict [(''output_step_id'', JStr r)])"
  shows "stored_output_metadata (snd (attempt (\<lambda>s. update_dynamic_output s wid outer r) s)) wid sid
     = Some (JDict [(''output_step_id'', JStr r)])"
proof (cases "update_dynamic_output s wid outer r")
  case (Inl e)
  with assms show ?thesis by (simp add: attempt_def)
next
  case (Inr s')
  have "stored_output_metadata s' wid sid = stored_output_metadata s wid sid"
  proof (cases "outer = sid")
    case True
    from update_dynamic_output_Inr [OF Inr] obtain kvs out where
      get: "ws_get_json s (key_step_output_metadata wid outer) = Inr (JDict kvs)"
      and out: "map_of kvs ''output_step_id'' = Some out"
      and how: "(out = JStr r \<or> map_of kvs ''dynamic_output_step_id'' = Some (JStr r)) \<and> s' = s
        \<or> out \<noteq> JStr r \<and> map_of kvs ''dynamic_output_step_id'' \<noteq> Some (JStr r) \<and>
          key_step_output_metadata wid outer \<notin> set (put_faults s) \<and>
          s' = s\<lparr>cells := AList.update (key_step_output_metadata wid outer)
                 (Doc (JDict (AList.update ''dynamic_output_step_id'' (JStr r) kvs))) (cells s),
              put_log := put_log s @ [key_step_output_metadata wid outer]\<rparr>"
      by blast
    from get True assms have "kvs = [(''output_step_id'', JStr r)]"
      by (simp add: stored_output_metadata_get)
    with out have "out = JStr r" by simp
    with how show ?thesis by auto
  next
    case False
    then have "key_step_output_metadata wid sid \<noteq> key_step_output_metadata wid outer"
      by (simp add: key_step_output_metadata_inject)
    from update_dynamic_output_other_key [OF Inr this]
    show ?thesis by (rule stored_output_metadata_cong)
  qed
  with Inr assms show ?thesis by (simp add: attempt_def)
qed


text \<open>What \<open>save_step_output\<close> runs once its put has been served.\<close>

lemma save_step_output_nested:
  assumes "sid \<noteq> r" and "key_step_output_metadata wid sid \<notin> set (put_faults s)"
  shows "save_step_output s wid sid (NestedWorkflow r) outer =
    (let s1 = s\<lparr>cells := AList.update (key_step_output_metadata wid sid)
                     (Doc (JDict [(''output_step_id'', JStr r)])) (cells s),
                 put_log := put_log s @ [key_step_output_metadata wid sid]\<rparr>
     in case outer of
          None \<Rightarrow> (None, s1)
        | Some om \<Rightarrow>
            if om = [] then (None, s1)
            else attempt (\<lambda>s. update_dynamic_output s wid om r) s1)"
  using assms
  by (auto simp: save_step_output_def attempt_def ws_put_json_def ws_put_payload_def
      storage_put_def make_key_def Let_def split: option.splits sum.splits prod.splits)




subsection \<open>The dynamic pointer under every writing operation\<close>

lemma ws_put_payload_other_key:
  assumes "ws_put_payload s paths p = Inr s'" and "k \<noteq> paths"
  shows "map_of (cells s') k = map_of (cells s) k"
  using assms by (auto simp: ws_put_payload_Inr update_conv')

lemma attempt_put_other_key:
  assumes "k \<noteq> paths"
  shows "map_of (cells (snd (attempt (\<lambda>s. ws_put_payload s paths p) s))) k = map_of (cells s) k"
  using assms
  by (cases "ws_put_payload s paths p") (auto simp: attempt_def dest: ws_put_payload_other_key)

lemma gather_other_key:
  assumes "\<And>t s. t \<in> set ts \<Longrightarrow> map_of (cells (snd (t s))) k = map_of (cells s) k"
  shows "map_of (cells (snd (gather ts s))) k = map_of (cells s) k"
  using assms
proof (induction ts arbitrary: s)
  case Nil
  then show ?case by simp
next
  case (Cons t ts)
  have step: "map_of (cells (snd (t s))) k = map_of (cells s) k"
    by (rule Cons.prems) simp
  have rest: "map_of (cells (snd (gather ts s'))) k = map_of (cells s') k" for s'
    by (rule Cons.IH) (simp add: Cons.prems)
  show ?case
  proof (cases "t s")
    case (Pair e s1)
    with step rest [of s1] show ?thesis by (cases e) simp_all
  qed
qed

lemma write_step_inputs_other_key:
  assumes "last k = STEP_OUTPUTS_METADATA"
  shows "map_of (cells (snd (write_step_inputs wid x data s))) k = map_of (cells s) k"
proof -
  obtain metadata func_body args_obj where data: "data = (metadata, func_body, args_obj)"
    by (cases data) auto
  have 1: "k \<noteq> key_step_input_metadata wid x" "k \<noteq> key_step_function_body wid x"
    "k \<noteq> key_step_args wid x"
    using assms
    by (auto simp: key_step_input_metadata_def key_step_function_body_def key_step_args_def
        STEP_OUTPUTS_METADATA_def STEP_INPUTS_METADATA_def STEP_FUNC_BODY_def STEP_ARGS_def)
  show ?thesis
    unfolding write_step_inputs_def data prod.case
    by (rule gather_other_key)
       (auto simp: ws_put_json_def ws_put_def attempt_put_other_key [OF 1(1)]
          attempt_put_other_key [OF 1(2)] attempt_put_other_key [OF 1(3)])
qed

lemma save_subworkflow_other_key:
  assumes "last k = STEP_OUTPUTS_METADATA"
  shows "map_of (cells (snd (save_subworkflow s wid executed dag))) k = map_of (cells s) k"
proof (cases executed)
  case True
  then show ?thesis by (simp add: save_subworkflow_def)
next
  case False
  have "map_of (cells (snd (gather (map (\<lambda>(step_id, data). write_step_inputs wid step_id data) dag) s))) k
      = map_of (cells s) k"
    by (rule gather_other_key) (auto simp: write_step_inputs_other_key [OF assms])
  with False show ?thesis by (simp add: save_subworkflow_def)
qed

lemma gen_step_id_other_key:
  assumes "gen_step_id s wid name = Inr (n, s')" and "k \<noteq> key_num_steps_with_name wid name"
  shows "map_of (cells s') k = map_of (cells s) k"
  using assms
  by (auto simp: gen_step_id_def Let_def sbind_def ws_put_json_def
      split: sum.splits if_splits dest: ws_put_payload_other_key)

lemma last_key_step_output_metadata:
  "last (key_step_output_metadata wid sid) = STEP_OUTPUTS_METADATA"
  by (simp add: key_step_output_metadata_def)

lemma gather_snd_single: "snd (gather [t] s) = snd (t s)"
  by (simp split: prod.splits option.splits)

lemma gather_snd_pair: "snd (gather [t, u] s) = snd (u (snd (t s)))"
  by (simp split: prod.splits option.splits)

lemma update_dynamic_output_pointer:
  assumes "field ''dynamic_output_step_id'' (stored_output_metadata s wid sid) = Some d"
    and "update_dynamic_output s wid outer c = Inr s'"
  shows "field ''dynamic_output_step_id'' (stored_output_metadata s' wid sid) = Some d
     \<or> (outer = sid \<and> JStr c \<noteq> d
        \<and> field ''dynamic_output_step_id'' (stored_output_metadata s' wid sid) = Some (JStr c))"
proof (cases "outer = sid")
  case False
  then have "key_step_output_metadata wid sid \<noteq> key_step_output_metadata wid outer"
    by (simp add: key_step_output_metadata_inject)
  from update_dynamic_output_other_key [OF assms(2) this]
  have "stored_output_metadata s' wid sid = stored_output_metadata s wid sid"
    by (rule stored_output_metadata_cong)
  with assms(1) show ?thesis by simp
next
  case True
  from update_dynamic_output_Inr [OF assms(2)] obtain kvs out where
    get: "ws_get_json s (key_step_output_metadata wid outer) = Inr (JDict kvs)"
    and how: "(out = JStr c \<or> map_of kvs ''dynamic_output_step_id'' = Some (JStr c)) \<and> s' = s
      \<or> out \<noteq> JStr c \<and> map_of kvs ''dynamic_output_step_id'' \<noteq> Some (JStr c) \<and>
        key_step_output_metadata wid outer \<notin> set (put_faults s) \<and>
        s' = s\<lparr>cells := AList.update (key_step_output_metadata wid outer)
               (Doc (JDict (AList.update ''dynamic_output_step_id'' (JStr c) kvs))) (cells s),
            put_log := put_log s @ [key_step_output_metadata wid outer]\<rparr>"
    by blast
  from get True have before: "stored_output_metadata s wid sid = Some (JDict kvs)"
    by (simp add: stored_output_metadata_get)
  with assms(1) have d: "map_of kvs ''dynamic_output_step_id'' = Some d"
    by (simp add: field_def)
  from how consider (noop) "s' = s"
    | (changed) "map_of kvs ''dynamic_output_step_id'' \<noteq> Some (JStr c)"
        "s' = s\<lparr>cells := AList.update (key_step_output_metadata wid outer)
               (Doc (JDict (AList.update ''dynamic_output_step_id'' (JStr c) kvs))) (cells s),
            put_log := put_log s @ [key_step_output_metadata wid outer]\<rparr>"
    by blast
  then show ?thesis
  proof cases
    case noop
    with assms(1) show ?thesis by simp
  next
    case changed
    from changed(1) d have "JStr c \<noteq> d" by auto
    moreover from changed(2) True
    have "stored_output_metadata s' wid sid
        = Some (JDict (AList.update ''dynamic_output_step_id'' (JStr c) kvs))"
      by (simp add: stored_output_metadata_def make_key_def update_conv')
    then have "field ''dynamic_output_step_id'' (stored_output_metadata s' wid sid)
        = Some (JStr c)"
      by (simp add: field_def update_conv')
    ultimately show ?thesis using True by simp
  qed
qed

lemma attempt_update_pointer:
  assumes "field ''dynamic_output_step_id'' (stored_output_metadata s wid sid) = Some d"
  shows "field ''dynamic_output_step_id''
      (stored_output_metadata (snd (attempt (\<lambda>s. update_dynamic_output s wid outer c) s)) wid sid)
      = Some d
   \<or> (JStr c \<noteq> d \<and> field ''dynamic_output_step_id''
      (stored_output_metadata (snd (attempt (\<lambda>s. update_dynamic_output s wid outer c) s)) wid sid)
      = Some (JStr c))"
proof (cases "update_dynamic_output s wid outer c")
  case (Inl e)
  with assms show ?thesis by (simp add: attempt_def)
next
  case (Inr s')
  from update_dynamic_output_pointer [OF assms Inr] Inr
  show ?thesis by (auto simp: attempt_def)
qed

text \<open>
  A put task for another key, followed or not by the shortcut update: the pointer stays
  or advances to the candidate.
\<close>

lemma put_then_update_pointer:
  assumes d: "field ''dynamic_output_step_id'' (stored_output_metadata s wid sid) = Some d"
    and k: "paths \<noteq> key_step_output_metadata wid sid"
  shows "let s' = snd (gather
            (attempt (\<lambda>s. ws_put_payload s paths p) #
              (case outer of
                 None \<Rightarrow> []
               | Some om \<Rightarrow>
                   if om \<noteq> [] then [attempt (\<lambda>s. update_dynamic_output s wid om c)] else []))
            s)
     in field ''dynamic_output_step_id'' (stored_output_metadata s' wid sid) = Some d
      \<or> (JStr c \<noteq> d
          \<and> field ''dynamic_output_step_id'' (stored_output_metadata s' wid sid) = Some (JStr c))"
proof -
  let ?s1 = "snd (attempt (\<lambda>s. ws_put_payload s paths p) s)"
  have "map_of (cells ?s1) (key_step_output_metadata wid sid)
      = map_of (cells s) (key_step_output_metadata wid sid)"
    using k by (intro attempt_put_other_key) simp
  then have "stored_output_metadata ?s1 wid sid = stored_output_metadata s wid sid"
    by (rule stored_output_metadata_cong)
  with d have d1: "field ''dynamic_output_step_id'' (stored_output_metadata ?s1 wid sid) = Some d"
    by simp
  show ?thesis
  proof (cases outer)
    case None
    with d1 show ?thesis by (simp add: gather_snd_single Let_def del: gather.simps)
  next
    case (Some om)
    show ?thesis
    proof (cases "om = []")
      case True
      with Some d1 show ?thesis by (simp add: gather_snd_single Let_def del: gather.simps)
    next
      case False
      with Some attempt_update_pointer [OF d1, of om c]
      show ?thesis by (simp add: gather_snd_pair Let_def del: gather.simps)
    qed
  qed
qed

lemma save_step_output_pointer:
  assumes d: "field ''dynamic_output_step_id'' (stored_output_metadata s wid sid) = Some d"
    and other: "\<And>r. ret = NestedWorkflow r \<Longrightarrow> x \<noteq> sid"
  shows "\<exists>c. field ''dynamic_output_step_id''
        (stored_output_metadata (snd (save_step_output s wid x ret outer)) wid sid) = Some d
      \<or> (JStr c \<noteq> d \<and> field ''dynamic_output_step_id''
        (stored_output_metadata (snd (save_step_output s wid x ret outer)) wid sid)
          = Some (JStr c))"
proof (cases ret)
  case (NestedWorkflow r)
  with other have ne: "x \<noteq> sid" by simp
  show ?thesis
  proof (cases "x = r")
    case True
    with NestedWorkflow d show ?thesis by (simp add: save_step_output_def)
  next
    case False
    from ne have "key_step_output_metadata wid x \<noteq> key_step_output_metadata wid sid"
      by (simp add: key_step_output_metadata_inject)
    from put_then_update_pointer [OF d this,
        where p = "Doc (JDict [(''output_step_id'', JStr r)])" and outer = outer and c = r]
      NestedWorkflow False
    show ?thesis
      by (auto simp: save_step_output_def ws_put_json_def Let_def simp del: gather.simps)
  qed
next
  case (ObjectRef v)
  have "key_step_output wid x \<noteq> key_step_output_metadata wid sid"
    by (simp add: key_step_output_def key_step_output_metadata_def STEP_OUTPUT_def
        STEP_OUTPUTS_METADATA_def)
  from put_then_update_pointer [OF d this, where p = "Pickled v" and outer = outer and c = x] ObjectRef
  show ?thesis
    by (auto simp: save_step_output_def ws_put_def Let_def simp del: gather.simps)
next
  case (PlainValue v)
  have "key_step_output wid x \<noteq> key_step_output_metadata wid sid"
    by (simp add: key_step_output_def key_step_output_metadata_def STEP_OUTPUT_def
        STEP_OUTPUTS_METADATA_def)
  from put_then_update_pointer [OF d this, where p = "Pickled v" and outer = outer and c = x] PlainValue
  show ?thesis
    by (auto simp: save_step_output_def ws_put_def Let_def simp del: gather.simps)
qed

lemma save_step_output_nested_metadata:
  assumes "sid \<noteq> r" and "key_step_output_metadata wid sid \<notin> set (put_faults s)"
  shows "stored_output_metadata (snd (save_step_output s wid sid (NestedWorkflow r) outer)) wid sid
     = Some (JDict [(''output_step_id'', JStr r)])"
proof -
  let ?s1 = "s\<lparr>cells := AList.update (key_step_output_metadata wid sid)
                     (Doc (JDict [(''output_step_id'', JStr r)])) (cells s),
                   put_log := put_log s @ [key_step_output_metadata wid sid]\<rparr>"
  have st1: "stored_output_metadata ?s1 wid sid = Some (JDict [(''output_step_id'', JStr r)])"
    by (simp add: stored_output_metadata_def make_key_def update_conv')
  show ?thesis
    unfolding save_step_output_nested [OF assms] Let_def
    using st1 attempt_update_keeps_pointing [OF st1]
    by (simp split: option.splits)
qed

text \<open>
  Claim C3, as stated, fails.  Step \<open>A\<close> has output metadata with the dynamic pointer \<open>C\<close>
  set.  A call of \<open>save_step_output\<close> for \<open>A\<close> with a nested workflow \<open>D\<close> as return value
  puts the fresh document \<open>{output_step_id: D}\<close> under \<open>A\<close>'s metadata key: the write does
  not preserve the pointer, the field is gone.
\<close>

theorem save_step_output_drops_dynamic_output_step_id:
  "field ''dynamic_output_step_id''
     (stored_output_metadata
        (store_of [([''wf'', ''steps'', ''A'', ''outputs.json''],
                    Doc (JDict [(''output_step_id'', JStr ''B''),
                                (''dynamic_output_step_id'', JStr ''C'')]))]) ''wf'' ''A'')
     = Some (JStr ''C'')
   \<and> save_step_output
        (store_of [([''wf'', ''steps'', ''A'', ''outputs.json''],
                    Doc (JDict [(''output_step_id'', JStr ''B''),
                                (''dynamic_output_step_id'', JStr ''C'')]))])
        ''wf'' ''A'' (NestedWorkflow ''D'') None
     = (None,
        \<lparr>cells = [([''wf'', ''steps'', ''A'', ''outputs.json''],
                    Doc (JDict [(''output_step_id'', JStr ''D'')]))],
          get_faults = [], put_faults = [], scan_faults = [],
          put_log = [[''wf'', ''steps'', ''A'', ''outputs.json'']]\<rparr>)
   \<and> field ''dynamic_output_step_id''
     (stored_output_metadata
        \<lparr>cells = [([''wf'', ''steps'', ''A'', ''outputs.json''],
                    Doc (JDict [(''output_step_id'', JStr ''D'')]))],
          get_faults = [], put_faults = [], scan_faults = [],
          put_log = [[''wf'', ''steps'', ''A'', ''outputs.json'']]\<rparr> ''wf'' ''A'')
     = None"
  by code_simp

text \<open>
  Claim C3, amended.  Let the \<open>dynamic_output_step_id\<close> of a step's stored output
  metadata be set, to \<open>d\<close>.  Then
  \<^item> a successful \<open>update_dynamic_output\<close> never removes the field and never reassigns the
    current pointer: afterwards the field is \<open>d\<close>, or the call was for this step and the
    field is the candidate, which differs from \<open>d\<close>;
  \<^item> \<open>save_step_output\<close>, whether it raises or not, leaves the field \<open>d\<close> or advances it
    to an identifier different from \<open>d\<close>, unless it is called for this very step with a
    nested workflow as return value;
  \<^item> in that case, once the put is served, the step's metadata is the fresh document
    and the field is gone (the code writes \<open>{output_step_id}\<close> alone);
  \<^item> \<open>gen_step_id\<close>, \<open>save_subworkflow\<close>, \<open>save_object_ref\<close>, \<open>save_actor_class_body\<close>,
    \<open>save_workflow_meta\<close> and \<open>advance_progress\<close> leave the step's output metadata as
    it is.
\<close>

theorem dynamic_output_step_id_kept:
  assumes "field ''dynamic_output_step_id'' (stored_output_metadata s wid sid) = Some d"
  shows "(\<forall>outer c s'. update_dynamic_output s wid outer c = Inr s' \<longrightarrow>
        field ''dynamic_output_step_id'' (stored_output_metadata s' wid sid) = Some d
        \<or> (outer = sid \<and> JStr c \<noteq> d
            \<and> field ''dynamic_output_step_id'' (stored_output_metadata s' wid sid)
                = Some (JStr c)))
   \<and> (\<forall>x ret outer. (\<forall>r. ret = NestedWorkflow r \<longrightarrow> x \<noteq> sid) \<longrightarrow>
        (\<exists>c. field ''dynamic_output_step_id''
               (stored_output_metadata (snd (save_step_output s wid x ret outer)) wid sid)
               = Some d
           \<or> (JStr c \<noteq> d
               \<and> field ''dynamic_output_step_id''
                 (stored_output_metadata (snd (save_step_output s wid x ret outer)) wid sid)
                 = Some (JStr c))))
   \<and> (\<forall>r outer. sid \<noteq> r \<and> key_step_output_metadata wid sid \<notin> set (put_faults s) \<longrightarrow>
        field ''dynamic_output_step_id''
          (stored_output_metadata
             (snd (save_step_output s wid sid (NestedWorkflow r) outer)) wid sid) = None)
   \<and> (\<forall>name n s'. gen_step_id s wid name = Inr (n, s') \<longrightarrow>
        stored_output_metadata s' wid sid = stored_output_metadata s wid sid)
   \<and> (\<forall>executed dag.
        stored_output_metadata (snd (save_subworkflow s wid executed dag)) wid sid
          = stored_output_metadata s wid sid)
   \<and> (\<forall>hex data s'. save_object_ref s wid hex data = Inr s' \<longrightarrow>
        stored_output_metadata s' wid sid = stored_output_metadata s wid sid)
   \<and> (\<forall>cls s'. save_actor_class_body s wid cls = Inr s' \<longrightarrow>
        stored_output_metadata s' wid sid = stored_output_metadata s wid sid)
   \<and> (\<forall>status s'. save_workflow_meta s wid status = Inr s' \<longrightarrow>
        stored_output_metadata s' wid sid = stored_output_metadata s wid sid)
   \<and> (\<forall>finished s'. advance_progress s wid finished = Inr s' \<longrightarrow>
        stored_output_metadata s' wid sid = stored_output_metadata s wid sid)"
proof (intro conjI allI impI)
  fix outer c s'
  assume "update_dynamic_output s wid outer c = Inr s'"
  from update_dynamic_output_pointer [OF assms this]
  show "field ''dynamic_output_step_id'' (stored_output_metadata s' wid sid) = Some d
        \<or> (outer = sid \<and> JStr c \<noteq> d
            \<and> field ''dynamic_output_step_id'' (stored_output_metadata s' wid sid)
                = Some (JStr c))" .
next
  fix x ret outer
  assume "\<forall>r. ret = NestedWorkflow r \<longrightarrow> x \<noteq> sid"
  then have "\<And>r. ret = NestedWorkflow r \<Longrightarrow> x \<noteq> sid" by blast
  from save_step_output_pointer [OF assms this]
  show "\<exists>c. field ''dynamic_output_step_id''
               (stored_output_metadata (snd (save_step_output s wid x ret outer)) wid sid)
               = Some d
           \<or> (JStr c \<noteq> d
               \<and> field ''dynamic_output_step_id''
                 (stored_output_metadata (snd (save_step_output s wid x ret outer)) wid sid)
                 = Some (JStr c))" .
next
  fix r outer
  assume "sid \<noteq> r \<and> key_step_output_metadata wid sid \<notin> set (put_faults s)"
  then have "stored_output_metadata (snd (save_step_output s wid sid (NestedWorkflow r) outer)) wid sid
     = Some (JDict [(''output_step_id'', JStr r)])"
    by (intro save_step_output_nested_metadata) simp_all
  then
  show "field ''dynamic_output_step_id''
          (stored_output_metadata
             (snd (save_step_output s wid sid (NestedWorkflow r) outer)) wid sid) = None"
    by (simp add: field_def)
next
  fix name n s'
  assume "gen_step_id s wid name = Inr (n, s')"
  moreover have "key_step_output_metadata wid sid \<noteq> key_num_steps_with_name wid name"
    by (simp add: key_step_output_metadata_def key_num_steps_with_name_def)
  ultimately have "map_of (cells s') (key_step_output_metadata wid sid)
      = map_of (cells s) (key_step_output_metadata wid sid)"
    by (rule gen_step_id_other_key)
  then show "stored_output_metadata s' wid sid = stored_output_metadata s wid sid"
    by (rule stored_output_metadata_cong)
next
  fix executed dag
  show "stored_output_metadata (snd (save_subworkflow s wid executed dag)) wid sid
          = stored_output_metadata s wid sid"
    by (intro stored_output_metadata_cong save_subworkflow_other_key
        last_key_step_output_metadata)
next
  fix hex data s'
  assume "save_object_ref s wid hex data = Inr s'"
  then have "ws_put_payload s (key_obj_id wid hex) (Pickled data) = Inr s'"
    by (simp add: save_object_ref_def ws_put_def)
  moreover have "key_step_output_metadata wid sid \<noteq> key_obj_id wid hex"
    by (simp add: key_step_output_metadata_def key_obj_id_def)
  ultimately show "stored_output_metadata s' wid sid = stored_output_metadata s wid sid"
    by (intro stored_output_metadata_cong ws_put_payload_other_key)
next
  fix cls s'
  assume "save_actor_class_body s wid cls = Inr s'"
  then have "ws_put_payload s (key_class_body wid) (Pickled cls) = Inr s'"
    by (simp add: save_actor_class_body_def ws_put_def)
  moreover have "key_step_output_metadata wid sid \<noteq> key_class_body wid"
    by (simp add: key_step_output_metadata_def key_class_body_def)
  ultimately show "stored_output_metadata s' wid sid = stored_output_metadata s wid sid"
    by (intro stored_output_metadata_cong ws_put_payload_other_key)
next
  fix status s'
  assume "save_workflow_meta s wid status = Inr s'"
  then have "ws_put_payload s (key_workflow_metadata wid) (Doc (JDict [(''status'', status)]))
      = Inr s'"
    by (simp add: save_workflow_meta_def ws_put_json_def)
  moreover have "key_step_output_metadata wid sid \<noteq> key_workflow_metadata wid"
    by (simp add: key_step_output_metadata_def key_workflow_metadata_def)
  ultimately show "stored_output_metadata s' wid sid = stored_output_metadata s wid sid"
    by (intro stored_output_metadata_cong ws_put_payload_other_key)
next
  fix finished s'
  assume "advance_progress s wid finished = Inr s'"
  then have "ws_put_payload s (key_workflow_progress wid)
      (Doc (JDict [(''step_id'', JStr finished)])) = Inr s'"
    by (simp add: advance_progress_def ws_put_json_def)
  moreover have "key_step_output_metadata wid sid \<noteq> key_workflow_progress wid"
    by (simp add: key_step_output_metadata_def key_workflow_progress_def)
  ultimately show "stored_output_metadata s' wid sid = stored_output_metadata s wid sid"
    by (intro stored_output_metadata_cong ws_put_payload_other_key)
qed

text \<open>
  The theorem at work: step \<open>A\<close> points at \<open>C\<close>; the candidate \<open>D\<close> is new, so the update
  advances the pointer to \<open>D\<close>, and the field is still set.
\<close>

theorem dynamic_output_step_id_kept_witness:
  "field ''dynamic_output_step_id''
     (stored_output_metadata
        (store_of [([''wf'', ''steps'', ''A'', ''outputs.json''],
                    Doc (JDict [(''output_step_id'', JStr ''B''),
                                (''dynamic_output_step_id'', JStr ''C'')]))]) ''wf'' ''A'')
     = Some (JStr ''C'')
   \<and> update_dynamic_output
        (store_of [([''wf'', ''steps'', ''A'', ''outputs.json''],
                    Doc (JDict [(''output_step_id'', JStr ''B''),
                                (''dynamic_output_step_id'', JStr ''C'')]))])
        ''wf'' ''A'' ''D''
     = Inr \<lparr>cells = [([''wf'', ''steps'', ''A'', ''outputs.json''],
                    Doc (JDict [(''output_step_id'', JStr ''B''),
                                (''dynamic_output_step_id'', JStr ''D'')]))],
          get_faults = [], put_faults = [], scan_faults = [],
          put_log = [[''wf'', ''steps'', ''A'', ''outputs.json'']]\<rparr>
   \<and> field ''dynamic_output_step_id''
     (stored_output_metadata
        \<lparr>cells = [([''wf'', ''steps'', ''A'', ''outputs.json''],
                    Doc (JDict [(''output_step_id'', JStr ''B''),
                                (''dynamic_output_step_id'', JStr ''D'')]))],
          get_faults = [], put_faults = [], scan_faults = [],
          put_log = [[''wf'', ''steps'', ''A'', ''outputs.json'']]\<rparr> ''wf'' ''A'')
     = Some (JStr ''D'')"
proof -
  let ?s = "store_of [([''wf'', ''steps'', ''A'', ''outputs.json''],
                    Doc (JDict [(''output_step_id'', JStr ''B''),
                                (''dynamic_output_step_id'', JStr ''C'')]))]"
  let ?s' = "\<lparr>cells = [([''wf'', ''steps'', ''A'', ''outputs.json''],
                    Doc (JDict [(''output_step_id'', JStr ''B''),
                                (''dynamic_output_step_id'', JStr ''D'')]))],
          get_faults = [], put_faults = [], scan_faults = [],
          put_log = [[''wf'', ''steps'', ''A'', ''outputs.json'']]\<rparr>"
  have before: "field ''dynamic_output_step_id'' (stored_output_metadata ?s ''wf'' ''A'')
      = Some (JStr ''C'')"
    by code_simp
  have run: "update_dynamic_output ?s ''wf'' ''A'' ''D'' = Inr ?s'"
    by code_simp
  have moved: "field ''dynamic_output_step_id'' (stored_output_metadata ?s' ''wf'' ''A'')
      \<noteq> Some (JStr ''C'')"
    by code_simp
  from dynamic_output_step_id_kept [OF before, THEN conjunct1, rule_format, OF run] moved
  have "field ''dynamic_output_step_id'' (stored_output_metadata ?s' ''wf'' ''A'')
      = Some (JStr ''D'')"
    by blast
  with before run show ?thesis by blast
qed

end
